theory Spec2Isabelle
  imports Complex_Main "HOL-Library.Log_Nat"
begin

section \<open>Random Weather server: data model\<close>

text \<open>
  The server (\<^verbatim>\<open>src/server.ts\<close>) is embedded as pure functions. A JavaScript
  \<^verbatim>\<open>number\<close> is the \<open>real\<close> it denotes: the server passes coordinates and
  readings through unchanged, and its one arithmetic operation, the product of a random
  draw and the length of the city list, is rounded to a double explicitly. A string is the
  list of its UTF-8 bytes, as it stands in the source file and in the JSON that is sent.
  A property that may be missing at run time is an \<open>option\<close>, \<open>None\<close> being
  \<^verbatim>\<open>undefined\<close>: the properties the interfaces declare optional, and the three
  arrays of the \<^verbatim>\<open>hourly\<close> object, which the interface declares but nothing
  checks before the handler calls a method of the first and indexes the two others (for
  these, \<open>None\<close> is any value on which that call or read throws). The properties that
  are only copied into the response are as the interfaces declare them, and so are the
  elements of the dataset.
\<close>

type_synonym number = real

record City =
  name :: string
  country :: string
  latitude :: number
  longitude :: number
  population :: number

text \<open>The \<^verbatim>\<open>address\<close> object of a \<^verbatim>\<open>NominatimResponse\<close>.\<close>

record Address =
  country :: "string option"
  city :: "string option"
  town :: "string option"
  village :: "string option"
  state :: "string option"

record NominatimResponse =
  display_name :: "string option"
  address :: "Address option"

text \<open>The \<^verbatim>\<open>current\<close> and \<^verbatim>\<open>hourly\<close> objects of an \<^verbatim>\<open>OpenMeteoResponse\<close>.\<close>

record Current =
  temperature_2m :: number
  wind_speed_10m :: number

record Hourly =
  time :: "string list option"
  temperature_2m :: "number list option"
  wind_speed_10m :: "number list option"

record OpenMeteoResponse =
  timezone :: string
  current :: "Current option"
  hourly :: "Hourly option"

text \<open>The value \<^verbatim>\<open>reverseGeocode\<close> resolves to when it is not \<^verbatim>\<open>null\<close>.\<close>

record GeoResult =
  displayName :: string
  country :: string

text \<open>
  \<^verbatim>\<open>WeatherResponse\<close> and its nested objects. An hourly entry reads two arrays by
  index; a read out of range is \<^verbatim>\<open>undefined\<close> in JavaScript, so the two readings
  are options.
\<close>

record ChosenPlace =
  displayName :: string
  country :: string
  latitude :: number
  longitude :: number
  timezone :: string

record ForecastCurrent =
  temperature :: number
  temperatureUnit :: string
  windSpeed :: number
  windSpeedUnit :: string

record HourlyForecast =
  time :: string
  temperature :: "number option"
  windSpeed :: "number option"

record Forecast =
  current :: ForecastCurrent
  hourly :: "HourlyForecast list"

record DataSources =
  geocoding :: string
  weather :: string

record WeatherResponse =
  chosenPlace :: ChosenPlace
  forecast :: Forecast
  dataSources :: DataSources

record ErrorResponse =
  error :: string
  message :: string

text \<open>What a JavaScript function can throw here.\<close>

datatype js_error = TypeError | SyntaxError | FetchError | AbortError

section \<open>Double-precision product\<close>

text \<open>
  \<^verbatim>\<open>Math.random() * cities.length\<close> is the product of two doubles, rounded to the
  nearest double, ties to even (IEEE 754 binary64). A double has 53 significant bits; the
  smallest positive one is \<open>1 / 2 ^ 1074\<close>; a result that rounds to \<open>2 ^ 1024\<close> or
  more is \<^verbatim>\<open>Infinity\<close>.
\<close>

definition mantissa_bits :: nat where
  "mantissa_bits = 53"

definition denormal_scale :: nat where
  "denormal_scale = 1074"

definition overflow_exponent :: nat where
  "overflow_exponent = 1024"

text \<open>The nearest integer, the even one of two that are equally near.\<close>

definition round_half_even :: "real \<Rightarrow> int" where
  "round_half_even y =
     (let f = \<lfloor>y\<rfloor> in
      if y - of_int f < 1 / 2 then f
      else if 1 / 2 < y - of_int f then f + 1
      else if even f then f else f + 1)"

text \<open>
  The doubles around a magnitude \<open>a\<close> are the multiples of
  \<open>2 ^ double_shift a / 2 ^ denormal_scale\<close>: with \<open>a\<close> counted in units of the
  smallest positive double, the spacing keeps 53 bits of it, and is one unit for the
  subnormal magnitudes.
\<close>

definition double_shift :: "real \<Rightarrow> nat" where
  "double_shift a = nat (bitlen \<lfloor>a * 2 ^ denormal_scale\<rfloor> - int mantissa_bits)"

text \<open>A real rounded to a double; \<open>None\<close> is an infinity.\<close>

definition round_double :: "real \<Rightarrow> real option" where
  "round_double x =
     (let a = \<bar>x\<bar>;
          s = 2 ^ double_shift a / 2 ^ denormal_scale;
          v = of_int (round_half_even (a / s)) * s
      in if 2 ^ overflow_exponent \<le> v then None else Some (sgn x * v))"

section \<open>City store\<close>

text \<open>
  \<^verbatim>\<open>xs[i]\<close> for a number \<open>i\<close> that is an integer: the element when
  \<open>0 \<le> i < xs.length\<close>, \<^verbatim>\<open>undefined\<close> otherwise.
\<close>

definition js_index :: "'a list \<Rightarrow> int \<Rightarrow> 'a option" where
  "js_index xs i = (if 0 \<le> i \<and> i < int (length xs) then Some (xs ! nat i) else None)"

text \<open>
  \<^verbatim>\<open>getRandomCity\<close>, with the module variable \<^verbatim>\<open>cities\<close> and the value of
  \<^verbatim>\<open>Math.random()\<close> as arguments:
  \<^verbatim>\<open>const index = Math.floor(Math.random() * cities.length); return cities[index];\<close>
  The length of an array is an integer below \<open>2 ^ 32\<close>, hence a double as it is. The
  floor of \<^verbatim>\<open>Infinity\<close> is \<^verbatim>\<open>Infinity\<close>, and no array has an element there.
\<close>

definition getRandomCity_index :: "City list \<Rightarrow> real \<Rightarrow> int option" where
  "getRandomCity_index cities r =
     (case round_double (r * real (length cities)) of
        None \<Rightarrow> None
      | Some product \<Rightarrow> Some \<lfloor>product\<rfloor>)"

definition getRandomCity :: "City list \<Rightarrow> real \<Rightarrow> City option" where
  "getRandomCity cities r =
     (case getRandomCity_index cities r of
        None \<Rightarrow> None
      | Some index \<Rightarrow> js_index cities index)"

section \<open>Loading the dataset at startup\<close>

text \<open>
  What \<^verbatim>\<open>fs.readFileSync\<close> and \<^verbatim>\<open>JSON.parse\<close> do with the dataset file:
  the read throws, or the text is not JSON and the parse throws, or the parse returns the
  array that is in the file (typed \<^verbatim>\<open>City[]\<close>; it may be \<^verbatim>\<open>[]\<close>).
\<close>

datatype dataset_file = ReadThrows | ParseThrows | Parsed "City list"

text \<open>
  The process after the module's top-level \<^verbatim>\<open>try\<close>/\<^verbatim>\<open>catch\<close>: it has
  called \<^verbatim>\<open>process.exit(1)\<close>, or it goes on to \<^verbatim>\<open>app.listen\<close> with the
  loaded \<^verbatim>\<open>cities\<close>.
\<close>

datatype process = Exited nat | Serving "City list"

definition load_cities :: "dataset_file \<Rightarrow> process" where
  "load_cities f =
     (case f of
        ReadThrows \<Rightarrow> Exited 1
      | ParseThrows \<Rightarrow> Exited 1
      | Parsed cities \<Rightarrow> Serving cities)"

section \<open>Upstream calls\<close>

text \<open>
  A \<^verbatim>\<open>Response\<close> of \<^verbatim>\<open>fetch\<close>: its status and what \<^verbatim>\<open>response.json()\<close>
  does (it rejects when the body is not JSON). \<^verbatim>\<open>response.ok\<close> is a status in
  200..299.
\<close>

datatype 'a Response = Response (status: nat) (json: "js_error + 'a")

definition ok :: "'a Response \<Rightarrow> bool" where
  "ok response = (200 \<le> status response \<and> status response \<le> 299)"

text \<open>
  What happens to one outbound call: the transport fails, or no response arrives before the
  abort timer fires, or a response arrives.
\<close>

datatype 'a fetch_outcome = NetworkFailure | TimedOut | Responds "'a Response"

text \<open>
  \<^verbatim>\<open>fetchWithTimeout\<close>: the promise of \<^verbatim>\<open>fetch\<close> with the abort signal. It
  rejects when the transport fails and when the timer aborts the call; the
  \<^verbatim>\<open>finally\<close> only clears the timer.
\<close>

definition fetchWithTimeout :: "'a fetch_outcome \<Rightarrow> js_error + 'a Response" where
  "fetchWithTimeout outcome =
     (case outcome of
        NetworkFailure \<Rightarrow> Inl FetchError
      | TimedOut \<Rightarrow> Inl AbortError
      | Responds response \<Rightarrow> Inr response)"

text \<open>A service answers a request for a latitude and a longitude.\<close>

type_synonym 'a service = "number \<Rightarrow> number \<Rightarrow> 'a fetch_outcome"

text \<open>\<^verbatim>\<open>data.address?.country\<close>\<close>

definition address_country :: "NominatimResponse \<Rightarrow> string option" where
  "address_country data =
     (case address data of None \<Rightarrow> None | Some a \<Rightarrow> Address.country a)"

text \<open>
  The body of the \<^verbatim>\<open>try\<close> block of \<^verbatim>\<open>reverseGeocode\<close>. A string is truthy
  when it is defined and not empty.
\<close>

definition reverseGeocode_try ::
  "NominatimResponse service \<Rightarrow> number \<Rightarrow> number \<Rightarrow> js_error + GeoResult option" where
  "reverseGeocode_try service lat lon =
     (case fetchWithTimeout (service lat lon) of
        Inl e \<Rightarrow> Inl e
      | Inr response \<Rightarrow>
          if \<not> ok response then Inr None
          else
            (case json response of
               Inl e \<Rightarrow> Inl e
             | Inr data \<Rightarrow>
                 (case display_name data of
                    None \<Rightarrow> Inr None
                  | Some d \<Rightarrow>
                      (case address_country data of
                         None \<Rightarrow> Inr None
                       | Some c \<Rightarrow>
                           if d \<noteq> [] \<and> c \<noteq> []
                           then Inr (Some \<lparr>GeoResult.displayName = d, GeoResult.country = c\<rparr>)
                           else Inr None))))"

text \<open>\<^verbatim>\<open>reverseGeocode\<close>: the \<^verbatim>\<open>catch\<close> turns whatever was thrown into \<^verbatim>\<open>null\<close>.\<close>

definition reverseGeocode ::
  "NominatimResponse service \<Rightarrow> number \<Rightarrow> number \<Rightarrow> js_error + GeoResult option" where
  "reverseGeocode service lat lon =
     (case reverseGeocode_try service lat lon of
        Inl e \<Rightarrow> Inr None
      | Inr result \<Rightarrow> Inr result)"

text \<open>The body of the \<^verbatim>\<open>try\<close> block of \<^verbatim>\<open>fetchWeather\<close>, and the function.\<close>

definition fetchWeather_try ::
  "OpenMeteoResponse service \<Rightarrow> number \<Rightarrow> number \<Rightarrow> js_error + OpenMeteoResponse option" where
  "fetchWeather_try service lat lon =
     (case fetchWithTimeout (service lat lon) of
        Inl e \<Rightarrow> Inl e
      | Inr response \<Rightarrow>
          if \<not> ok response then Inr None
          else
            (case json response of
               Inl e \<Rightarrow> Inl e
             | Inr data \<Rightarrow> Inr (Some data)))"

definition fetchWeather ::
  "OpenMeteoResponse service \<Rightarrow> number \<Rightarrow> number \<Rightarrow> js_error + OpenMeteoResponse option" where
  "fetchWeather service lat lon =
     (case fetchWeather_try service lat lon of
        Inl e \<Rightarrow> Inr None
      | Inr result \<Rightarrow> Inr result)"

section \<open>The endpoint \<^verbatim>\<open>GET /api/randomWeather\<close>\<close>

definition maxAttempts :: nat where
  "maxAttempts = 10"

definition retryDelay :: nat where
  "retryDelay = 1100"

text \<open>
  The string literal of \<^verbatim>\<open>temperatureUnit\<close> as it stands in the source file, byte by
  byte: \<^verbatim>\<open>C2 AC E2 88 9E 43\<close> (U+00AC, U+221E, \<^verbatim>\<open>C\<close>). The degree sign followed by
  \<^verbatim>\<open>C\<close>, which the README documents for this field, is \<^verbatim>\<open>C2 B0 43\<close>.
\<close>

definition temperatureUnit_literal :: string where
  "temperatureUnit_literal = [CHR 0xC2, CHR 0xAC, CHR 0xE2, CHR 0x88, CHR 0x9E, CHR ''C'']"

definition degree_celsius :: string where
  "degree_celsius = [CHR 0xC2, CHR 0xB0, CHR ''C'']"

definition geocoding_attribution :: string where
  "geocoding_attribution = ''OpenStreetMap Nominatim (https://nominatim.openstreetmap.org)''"

definition weather_attribution :: string where
  "weather_attribution = ''Open-Meteo (https://open-meteo.com)''"

definition unavailable_message :: string where
  "unavailable_message =
     ''Unable to resolve a valid location after multiple attempts. The geocoding service may be temporarily unavailable or rate-limited. Please try again in a few moments.''"

text \<open>
  \<^verbatim>\<open>xs.map(f)\<close> for a callback that may throw: the callback runs on the elements in
  order, and the first exception ends the call.
\<close>

fun js_map :: "('a \<Rightarrow> js_error + 'b) \<Rightarrow> 'a list \<Rightarrow> js_error + 'b list" where
  "js_map f [] = Inr []"
| "js_map f (x # xs) =
     (case f x of
        Inl e \<Rightarrow> Inl e
      | Inr y \<Rightarrow>
          (case js_map f xs of
             Inl e \<Rightarrow> Inl e
           | Inr ys \<Rightarrow> Inr (y # ys)))"

text \<open>
  The callback of the handler's \<^verbatim>\<open>map\<close>, on an index and the time there:
  \<^verbatim>\<open>weatherData.hourly!.temperature_2m[index]\<close> and
  \<^verbatim>\<open>weatherData.hourly!.wind_speed_10m[index]\<close>. Indexing \<^verbatim>\<open>undefined\<close> throws a
  \<^verbatim>\<open>TypeError\<close>.
\<close>

definition hourlyEntry :: "Hourly \<Rightarrow> nat \<times> string \<Rightarrow> js_error + HourlyForecast" where
  "hourlyEntry h entry =
     (case entry of (index, t) \<Rightarrow>
        (case Hourly.temperature_2m h of
           None \<Rightarrow> Inl TypeError
         | Some temps \<Rightarrow>
             (case Hourly.wind_speed_10m h of
                None \<Rightarrow> Inl TypeError
              | Some winds \<Rightarrow>
                  Inr \<lparr>HourlyForecast.time = t,
                       HourlyForecast.temperature = js_index temps (int index),
                       HourlyForecast.windSpeed = js_index winds (int index)\<rparr>)))"

text \<open>
  \<^verbatim>\<open>weatherData.hourly.time.slice(0, 24).map((time, index) => ...)\<close>. Calling
  \<^verbatim>\<open>slice\<close> on \<^verbatim>\<open>undefined\<close> throws a \<^verbatim>\<open>TypeError\<close>.
\<close>

definition hourlyForecast :: "Hourly \<Rightarrow> js_error + HourlyForecast list" where
  "hourlyForecast h =
     (case Hourly.time h of
        None \<Rightarrow> Inl TypeError
      | Some ts \<Rightarrow> js_map (hourlyEntry h) (enumerate 0 (take 24 ts)))"

text \<open>
  The guard \<^verbatim>\<open>!weatherData || !weatherData.current || !weatherData.hourly\<close> of the
  handler: \<open>None\<close> when it holds, the data with its two sections otherwise.
\<close>

definition weather_sections ::
  "OpenMeteoResponse option \<Rightarrow> (OpenMeteoResponse \<times> Current \<times> Hourly) option" where
  "weather_sections weatherData =
     (case weatherData of
        None \<Rightarrow> None
      | Some d \<Rightarrow>
          (case OpenMeteoResponse.current d of
             None \<Rightarrow> None
           | Some c \<Rightarrow>
               (case OpenMeteoResponse.hourly d of
                  None \<Rightarrow> None
                | Some h \<Rightarrow> Some (d, c, h))))"

text \<open>
  The object literal \<^verbatim>\<open>response\<close> of the handler, from the city, the location, the
  weather data with its \<^verbatim>\<open>current\<close> section, and the hourly forecast built before.
\<close>

definition buildResponse ::
  "City \<Rightarrow> GeoResult \<Rightarrow> OpenMeteoResponse \<Rightarrow> Current \<Rightarrow> HourlyForecast list
     \<Rightarrow> WeatherResponse" where
  "buildResponse drawn geoResult weatherData cur entries =
     \<lparr>chosenPlace =
        \<lparr>ChosenPlace.displayName = GeoResult.displayName geoResult,
         ChosenPlace.country = GeoResult.country geoResult,
         ChosenPlace.latitude = City.latitude drawn,
         ChosenPlace.longitude = City.longitude drawn,
         ChosenPlace.timezone = OpenMeteoResponse.timezone weatherData\<rparr>,
      forecast =
        \<lparr>Forecast.current =
           \<lparr>ForecastCurrent.temperature = Current.temperature_2m cur,
            ForecastCurrent.temperatureUnit = temperatureUnit_literal,
            ForecastCurrent.windSpeed = Current.wind_speed_10m cur,
            ForecastCurrent.windSpeedUnit = ''km/h''\<rparr>,
         Forecast.hourly = entries\<rparr>,
      dataSources =
        \<lparr>geocoding = geocoding_attribution,
         weather = weather_attribution\<rparr>\<rparr>"

text \<open>
  The world of one request: the value of \<^verbatim>\<open>Math.random()\<close> and the behaviour of the
  two services at each attempt.
\<close>

record World =
  Math_random :: "nat \<Rightarrow> real"
  nominatim :: "nat \<Rightarrow> NominatimResponse service"
  open_meteo :: "nat \<Rightarrow> OpenMeteoResponse service"

text \<open>What the handler does that can be observed besides its response.\<close>

datatype event =
    Attempt nat
  | GeocodeRequest number number
  | WeatherRequest number number
  | Sleep nat

text \<open>What the handler sends: \<^verbatim>\<open>res.json(...)\<close>, with status 200 unless set.\<close>

datatype body = WeatherBody WeatherResponse | ErrorBody ErrorResponse

record HttpResponse =
  statusCode :: nat
  body :: body

text \<open>
  How one pass through the body of the \<^verbatim>\<open>for\<close> loop ends: at a \<^verbatim>\<open>continue\<close>,
  at the \<^verbatim>\<open>return res.json(response)\<close>, or with an exception. Reading
  \<^verbatim>\<open>city.name\<close> throws a \<^verbatim>\<open>TypeError\<close> when \<^verbatim>\<open>getRandomCity\<close> returned
  \<^verbatim>\<open>undefined\<close>, and building the hourly forecast throws one when an array of the
  \<^verbatim>\<open>hourly\<close> section is missing; neither is inside a \<^verbatim>\<open>try\<close>.
\<close>

datatype step = Continue | Return WeatherResponse | Throw js_error

definition attempt_body :: "City list \<Rightarrow> World \<Rightarrow> nat \<Rightarrow> step \<times> event list" where
  "attempt_body cities world attempt =
     (let pause = (if attempt < maxAttempts then [Sleep retryDelay] else []) in
      case getRandomCity cities (Math_random world attempt) of
        None \<Rightarrow> (Throw TypeError, [Attempt attempt])
      | Some drawn \<Rightarrow>
          (let geocode_req = GeocodeRequest (City.latitude drawn) (City.longitude drawn);
               weather_req = WeatherRequest (City.latitude drawn) (City.longitude drawn) in
           case reverseGeocode (nominatim world attempt)
                  (City.latitude drawn) (City.longitude drawn) of
             Inl e \<Rightarrow> (Throw e, [Attempt attempt, geocode_req])
           | Inr None \<Rightarrow> (Continue, [Attempt attempt, geocode_req] @ pause)
           | Inr (Some geoResult) \<Rightarrow>
               (case fetchWeather (open_meteo world attempt)
                       (City.latitude drawn) (City.longitude drawn) of
                  Inl e \<Rightarrow> (Throw e, [Attempt attempt, geocode_req, weather_req])
                | Inr weatherData \<Rightarrow>
                    (case weather_sections weatherData of
                       None \<Rightarrow> (Continue, [Attempt attempt, geocode_req, weather_req] @ pause)
                     | Some (d, cur, h) \<Rightarrow>
                         (case hourlyForecast h of
                            Inl e \<Rightarrow> (Throw e, [Attempt attempt, geocode_req, weather_req])
                          | Inr entries \<Rightarrow>
                              (Return (buildResponse drawn geoResult d cur entries),
                               [Attempt attempt, geocode_req, weather_req]))))))"

text \<open>
  The \<^verbatim>\<open>for\<close> loop from \<^verbatim>\<open>attempt\<close> on, and the fall-through to the 503 after
  it. The result is what the handler sends, or what it throws, with the events so far.
\<close>

function randomWeather_loop ::
  "City list \<Rightarrow> World \<Rightarrow> nat \<Rightarrow> event list \<Rightarrow> (js_error + HttpResponse) \<times> event list" where
  "randomWeather_loop cities world attempt trace =
     (if attempt \<le> maxAttempts then
        (case attempt_body cities world attempt of
           (Continue, evs) \<Rightarrow> randomWeather_loop cities world (attempt + 1) (trace @ evs)
         | (Return response, evs) \<Rightarrow>
             (Inr \<lparr>statusCode = 200, body = WeatherBody response\<rparr>, trace @ evs)
         | (Throw e, evs) \<Rightarrow> (Inl e, trace @ evs))
      else
        (Inr \<lparr>statusCode = 503,
              body = ErrorBody \<lparr>error = ''Service Unavailable'',
                                message = unavailable_message\<rparr>\<rparr>,
         trace))"
  by pat_completeness auto
termination
  by (relation "measure (\<lambda>(cities, world, attempt, trace). Suc maxAttempts - attempt)") auto

definition randomWeather :: "City list \<Rightarrow> World \<Rightarrow> (js_error + HttpResponse) \<times> event list" where
  "randomWeather cities world = randomWeather_loop cities world 1 []"

text \<open>The delays of a run, in order.\<close>

fun sleeps :: "event list \<Rightarrow> nat list" where
  "sleeps [] = []"
| "sleeps (Sleep ms # evs) = ms # sleeps evs"
| "sleeps (_ # evs) = sleeps evs"

section \<open>Scenarios\<close>

text \<open>
  Concrete worlds to run the handler in: a dataset of one city and one of three, a geocoder
  and a weather service that answer with everything in place, a weather service whose
  answer lacks the \<^verbatim>\<open>current\<close> and \<^verbatim>\<open>hourly\<close> sections, one whose
  \<^verbatim>\<open>hourly\<close> section is the empty object, and services that are down.
\<close>

definition testville :: City where
  "testville =
     \<lparr>City.name = ''Testville'', City.country = ''Test Country'',
      City.latitude = 10, City.longitude = 20, City.population = 1000\<rparr>"

definition testville_place :: NominatimResponse where
  "testville_place =
     \<lparr>display_name = Some ''Testville, Test Country'',
      address = Some \<lparr>Address.country = Some ''Test Country'', city = Some ''Testville'',
                       town = None, village = None, state = None\<rparr>\<rparr>"

definition testville_located :: GeoResult where
  "testville_located =
     \<lparr>GeoResult.displayName = ''Testville, Test Country'',
      GeoResult.country = ''Test Country''\<rparr>"

definition testville_current :: Current where
  "testville_current = \<lparr>Current.temperature_2m = 15, Current.wind_speed_10m = 5\<rparr>"

definition otherton :: City where
  "otherton =
     \<lparr>City.name = ''Otherton'', City.country = ''Test Country'',
      City.latitude = 30, City.longitude = 40, City.population = 2000\<rparr>"

definition thirdburg :: City where
  "thirdburg =
     \<lparr>City.name = ''Thirdburg'', City.country = ''Test Country'',
      City.latitude = 50, City.longitude = 60, City.population = 3000\<rparr>"

text \<open>
  The double \<^verbatim>\<open>0.6666666666666666\<close>, the largest one below two thirds: an odd
  multiple of \<open>1 / 2 ^ 53\<close>.
\<close>

definition below_two_thirds :: real where
  "below_two_thirds = 6004799503160661 / 9007199254740992"

definition testville_hourly :: Hourly where
  "testville_hourly =
     \<lparr>Hourly.time = Some [''2024-01-15T14:00'', ''2024-01-15T15:00''],
      Hourly.temperature_2m = Some [15, 16],
      Hourly.wind_speed_10m = Some [5, 6]\<rparr>"

definition testville_entries :: "HourlyForecast list" where
  "testville_entries =
     [\<lparr>HourlyForecast.time = ''2024-01-15T14:00'',
       HourlyForecast.temperature = Some 15, HourlyForecast.windSpeed = Some 5\<rparr>,
      \<lparr>HourlyForecast.time = ''2024-01-15T15:00'',
       HourlyForecast.temperature = Some 16, HourlyForecast.windSpeed = Some 6\<rparr>]"

text \<open>The \<^verbatim>\<open>hourly\<close> section that is the empty object.\<close>

definition hollow_hourly :: Hourly where
  "hollow_hourly =
     \<lparr>Hourly.time = None, Hourly.temperature_2m = None, Hourly.wind_speed_10m = None\<rparr>"


definition testville_forecast :: OpenMeteoResponse where
  "testville_forecast =
     \<lparr>OpenMeteoResponse.timezone = ''UTC'',
      OpenMeteoResponse.current = Some testville_current,
      OpenMeteoResponse.hourly = Some testville_hourly\<rparr>"

definition hollow_forecast :: OpenMeteoResponse where
  "hollow_forecast =
     \<lparr>OpenMeteoResponse.timezone = ''UTC'',
      OpenMeteoResponse.current = Some testville_current,
      OpenMeteoResponse.hourly = Some hollow_hourly\<rparr>"

text \<open>The response the handler sends for Testville, field by field.\<close>

definition testville_response :: WeatherResponse where
  "testville_response =
     \<lparr>chosenPlace =
        \<lparr>ChosenPlace.displayName = ''Testville, Test Country'',
         ChosenPlace.country = ''Test Country'',
         ChosenPlace.latitude = 10,
         ChosenPlace.longitude = 20,
         ChosenPlace.timezone = ''UTC''\<rparr>,
      forecast =
        \<lparr>Forecast.current =
           \<lparr>ForecastCurrent.temperature = 15,
            ForecastCurrent.temperatureUnit =
              [CHR 0xC2, CHR 0xAC, CHR 0xE2, CHR 0x88, CHR 0x9E, CHR ''C''],
            ForecastCurrent.windSpeed = 5,
            ForecastCurrent.windSpeedUnit = ''km/h''\<rparr>,
         Forecast.hourly = testville_entries\<rparr>,
      dataSources =
        \<lparr>geocoding = ''OpenStreetMap Nominatim (https://nominatim.openstreetmap.org)'',
         weather = ''Open-Meteo (https://open-meteo.com)''\<rparr>\<rparr>"

definition forecast_without_sections :: OpenMeteoResponse where
  "forecast_without_sections =
     \<lparr>OpenMeteoResponse.timezone = ''UTC'',
      OpenMeteoResponse.current = None,
      OpenMeteoResponse.hourly = None\<rparr>"

definition geocoder_up :: "NominatimResponse service" where
  "geocoder_up lat lon = Responds (Response 200 (Inr testville_place))"

definition geocoder_down :: "NominatimResponse service" where
  "geocoder_down lat lon = NetworkFailure"

definition geocoder_slow :: "NominatimResponse service" where
  "geocoder_slow lat lon = TimedOut"

definition geocoder_limited :: "NominatimResponse service" where
  "geocoder_limited lat lon = Responds (Response 429 (Inr testville_place))"

definition geocoder_nameless :: "NominatimResponse service" where
  "geocoder_nameless lat lon =
     Responds (Response 200 (Inr \<lparr>display_name = None, address = None\<rparr>))"

definition weather_up :: "OpenMeteoResponse service" where
  "weather_up lat lon = Responds (Response 200 (Inr testville_forecast))"

definition weather_down :: "OpenMeteoResponse service" where
  "weather_down lat lon = NetworkFailure"

definition weather_failing :: "OpenMeteoResponse service" where
  "weather_failing lat lon = Responds (Response 500 (Inr testville_forecast))"

definition weather_bare :: "OpenMeteoResponse service" where
  "weather_bare lat lon = Responds (Response 200 (Inr forecast_without_sections))"

definition weather_hollow :: "OpenMeteoResponse service" where
  "weather_hollow lat lon = Responds (Response 200 (Inr hollow_forecast))"

definition world_up :: World where
  "world_up =
     \<lparr>Math_random = (\<lambda>attempt. 0),
      nominatim = (\<lambda>attempt. geocoder_up),
      open_meteo = (\<lambda>attempt. weather_up)\<rparr>"

definition world_down :: World where
  "world_down =
     \<lparr>Math_random = (\<lambda>attempt. 0),
      nominatim = (\<lambda>attempt. geocoder_down),
      open_meteo = (\<lambda>attempt. weather_down)\<rparr>"

definition world_hollow :: World where
  "world_hollow =
     \<lparr>Math_random = (\<lambda>attempt. 0),
      nominatim = (\<lambda>attempt. geocoder_up),
      open_meteo = (\<lambda>attempt. weather_hollow)\<rparr>"

text \<open>The geocoder is down for the first two attempts and answers from the third on.\<close>

definition world_recovering :: World where
  "world_recovering =
     \<lparr>Math_random = (\<lambda>attempt. 0),
      nominatim = (\<lambda>attempt. if attempt < 3 then geocoder_down else geocoder_up),
      open_meteo = (\<lambda>attempt. weather_up)\<rparr>"

section \<open>Rounding to a double\<close>

lemma round_half_even_nonneg: "0 \<le> y \<Longrightarrow> 0 \<le> round_half_even y"
  by (auto simp: round_half_even_def Let_def)

lemma round_half_even_le: "round_half_even y \<le> \<lfloor>y\<rfloor> + 1"
  by (simp add: round_half_even_def Let_def)

lemma round_half_even_below:
  assumes "y < of_int n - 1 / 2"
  shows "round_half_even y \<le> n - 1"
proof (cases "\<lfloor>y\<rfloor> = n - 1")
  case True
  then have "y - of_int \<lfloor>y\<rfloor> < 1 / 2"
    using assms by simp
  then have "round_half_even y = \<lfloor>y\<rfloor>"
    by (simp add: round_half_even_def Let_def)
  with True show ?thesis by simp
next
  case False
  have "y < of_int n"
    using assms by simp
  then have "\<lfloor>y\<rfloor> < n"
    by (simp add: floor_less_iff)
  with False have "\<lfloor>y\<rfloor> + 1 \<le> n - 1"
    by simp
  with round_half_even_le [of y] show ?thesis
    by linarith
qed

lemma round_double_zero: "round_double 0 = Some 0"
  by (simp add: round_double_def double_shift_def round_half_even_def not_le)

lemma bitlen_floor_binade:
  assumes "2 ^ j \<le> b" and "b < 2 ^ Suc j"
  shows "bitlen \<lfloor>b::real\<rfloor> = int j + 1"
proof -
  have "real_of_int (2 ^ j) \<le> b"
    using assms(1) by simp
  then have lo: "2 ^ j \<le> \<lfloor>b\<rfloor>"
    by (simp only: le_floor_iff)
  have "b < real_of_int (2 ^ Suc j)"
    using assms(2) by simp
  then have hi: "\<lfloor>b\<rfloor> < 2 ^ Suc j"
    by (simp only: floor_less_iff)
  have "bitlen \<lfloor>b\<rfloor> \<le> int (Suc j)"
    unfolding bitlen_le_iff_power using hi by (simp add: nat_add_distrib)
  moreover have "int (Suc j) \<le> bitlen \<lfloor>b\<rfloor>"
    unfolding bitlen_ge_iff_power using lo by (simp add: nat_add_distrib)
  ultimately show ?thesis
    by simp
qed

text \<open>The doubles in \<open>[1, 2)\<close> are the multiples of \<open>1 / 2 ^ 52\<close>.\<close>

lemma round_double_from_one:
  assumes "1 \<le> x" and "x < 2"
  shows "round_double x = Some (of_int (round_half_even (x * 2 ^ 52)) / 2 ^ 52)"
proof -
  have "(2::real) ^ denormal_scale \<le> x * 2 ^ denormal_scale"
    using assms(1) by simp
  moreover have "x * 2 ^ denormal_scale < 2 ^ Suc denormal_scale"
    using assms(2) by simp
  ultimately have "bitlen \<lfloor>x * 2 ^ denormal_scale\<rfloor> = int denormal_scale + 1"
    by (rule bitlen_floor_binade)
  then have sh: "double_shift x = denormal_scale - 52"
    by (simp add: double_shift_def denormal_scale_def mantissa_bits_def)
  have "(2::real) ^ denormal_scale = 2 ^ (denormal_scale - 52) * 2 ^ 52"
    unfolding power_add [symmetric] by (simp add: denormal_scale_def)
  then have s: "(2::real) ^ double_shift x / 2 ^ denormal_scale = 1 / 2 ^ 52"
    by (simp add: sh)
  have "round_half_even (x * 2 ^ 52) \<le> \<lfloor>x * 2 ^ 52\<rfloor> + 1"
    by (rule round_half_even_le)
  moreover have "\<lfloor>x * 2 ^ 52\<rfloor> < 2 ^ 53"
    using assms(2) by (simp add: floor_less_iff)
  ultimately have "round_half_even (x * 2 ^ 52) \<le> 2 ^ 53"
    by linarith
  then have "real_of_int (round_half_even (x * 2 ^ 52)) \<le> 2 ^ 53"
    by (metis of_int_le_iff of_int_numeral of_int_power)
  then have "real_of_int (round_half_even (x * 2 ^ 52)) / 2 ^ 52 \<le> 2"
    by (simp add: field_simps)
  moreover have "(2::real) < 2 ^ overflow_exponent"
    by (simp add: overflow_exponent_def)
  moreover define q where "q = round_half_even (x * 2 ^ 52)"
  ultimately have small: "\<not> 2 ^ overflow_exponent \<le> real_of_int q * (1 / 2 ^ 52)"
    by simp
  have ax: "\<bar>x\<bar> = x" and sx: "sgn x = 1"
    using assms(1) by simp_all
  have scaled: "x / (1 / 2 ^ 52) = x * 2 ^ 52"
    by simp
  have "round_double x = Some (real_of_int q * (1 / 2 ^ 52))"
    unfolding round_double_def Let_def ax s scaled q_def [symmetric] sx
    using small by simp
  then show ?thesis
    by (simp add: q_def)
qed

text \<open>The doubles in \<open>[1/2, 1)\<close> are the multiples of \<open>1 / 2 ^ 53\<close>.\<close>

lemma round_double_from_half:
  assumes "1 / 2 \<le> x" and "x < 1"
  shows "round_double x = Some (of_int (round_half_even (x * 2 ^ 53)) / 2 ^ 53)"
proof -
  have Uh: "(2::real) ^ denormal_scale = 2 * 2 ^ (denormal_scale - 1)"
    unfolding power_Suc [symmetric] by (simp add: denormal_scale_def)
  have "2 ^ (denormal_scale - 1) \<le> x * 2 ^ denormal_scale"
    using assms(1) by (simp add: Uh)
  moreover have "x * 2 ^ denormal_scale < 2 ^ Suc (denormal_scale - 1)"
    using assms(2) by (simp add: Uh)
  ultimately have "bitlen \<lfloor>x * 2 ^ denormal_scale\<rfloor> = int (denormal_scale - 1) + 1"
    by (rule bitlen_floor_binade)
  then have sh: "double_shift x = denormal_scale - 53"
    by (simp add: double_shift_def denormal_scale_def mantissa_bits_def)
  have "(2::real) ^ denormal_scale = 2 ^ (denormal_scale - 53) * 2 ^ 53"
    unfolding power_add [symmetric] by (simp add: denormal_scale_def)
  then have s: "(2::real) ^ double_shift x / 2 ^ denormal_scale = 1 / 2 ^ 53"
    by (simp add: sh)
  have "round_half_even (x * 2 ^ 53) \<le> \<lfloor>x * 2 ^ 53\<rfloor> + 1"
    by (rule round_half_even_le)
  moreover have "\<lfloor>x * 2 ^ 53\<rfloor> < 2 ^ 53"
    using assms(2) by (simp add: floor_less_iff)
  ultimately have "round_half_even (x * 2 ^ 53) \<le> 2 ^ 53"
    by linarith
  then have "real_of_int (round_half_even (x * 2 ^ 53)) \<le> 2 ^ 53"
    by (metis of_int_le_iff of_int_numeral of_int_power)
  then have "real_of_int (round_half_even (x * 2 ^ 53)) / 2 ^ 53 \<le> 1"
    by (simp add: field_simps)
  moreover have "(1::real) < 2 ^ overflow_exponent"
    by (simp add: overflow_exponent_def)
  moreover define q where "q = round_half_even (x * 2 ^ 53)"
  ultimately have small: "\<not> 2 ^ overflow_exponent \<le> real_of_int q * (1 / 2 ^ 53)"
    by simp
  have ax: "\<bar>x\<bar> = x" and sx: "sgn x = 1"
    using assms(1) by simp_all
  have scaled: "x / (1 / 2 ^ 53) = x * 2 ^ 53"
    by simp
  have "round_double x = Some (real_of_int q * (1 / 2 ^ 53))"
    unfolding round_double_def Let_def ax s scaled q_def [symmetric] sx
    using small by simp
  then show ?thesis
    by (simp add: q_def)
qed

lemma round_double_scaled_below:
  fixes x :: real and N :: nat
  assumes x0: "0 \<le> x"
    and xN: "x \<le> real N * (1 - 1 / 2 ^ mantissa_bits)"
    and N0: "0 < N"
    and NP: "real N < 2 ^ mantissa_bits"
  shows "\<exists>p. round_double x = Some p \<and> 0 \<le> p \<and> p < real N"
proof -
  define t where "t = denormal_scale - mantissa_bits"
  define P :: real where "P = 2 ^ mantissa_bits"
  define U :: real where "U = 2 ^ denormal_scale"
  define A where "A = x * U"
  define m where "m = \<lfloor>A\<rfloor>"
  define sh where "sh = double_shift x"
  define S :: real where "S = 2 ^ sh"
  define W where "W = real N * U"
  have ds: "denormal_scale = t + mantissa_bits"
    by (simp add: t_def denormal_scale_def mantissa_bits_def)
  have mb: "0 < mantissa_bits" "mantissa_bits \<le> overflow_exponent"
    by (simp_all add: mantissa_bits_def overflow_exponent_def)
  have U: "U = 2 ^ t * P"
    unfolding U_def P_def ds by (rule power_add)
  have P0: "0 < P" and P1: "1 \<le> P"
    by (simp_all add: P_def)
  have T1: "(1::real) \<le> 2 ^ t"
    by simp
  have U0: "0 < U"
    by (simp add: U_def)
  have S0: "0 < S"
    by (simp add: S_def)
  have sh_eq: "sh = nat (bitlen m - int mantissa_bits)"
    by (simp add: sh_def double_shift_def m_def A_def U_def)
  have A0: "0 \<le> A"
    using x0 U0 by (simp add: A_def)
  have m0: "0 \<le> m"
    using A0 by (simp add: m_def)
  have mA: "of_int m \<le> A"
    by (simp add: m_def)
  have W0: "0 < W"
    using N0 U0 by (simp add: W_def)
  have WP: "W / P = real N * 2 ^ t"
    using P0 by (simp add: W_def U)
  have WP1: "1 \<le> W / P"
  proof -
    have "1 \<le> real N" using N0 by simp
    then have "1 * 1 \<le> real N * 2 ^ t"
      using T1 by (intro mult_mono) simp_all
    then show ?thesis by (simp add: WP)
  qed
  have AW: "A \<le> W - W / P"
  proof -
    have "x * U \<le> (real N * (1 - 1 / P)) * U"
      using xN U0 unfolding P_def by (intro mult_right_mono) simp_all
    also have "\<dots> = W - W / P"
      by (simp add: W_def algebra_simps)
    finally show ?thesis by (simp add: A_def)
  qed
  have A_lt_W: "A < W"
    using AW WP1 by linarith
  have c: "S / 2 < W - A"
  proof (cases "bitlen m \<le> int mantissa_bits")
    case True
    then have "S = 1"
      by (simp add: S_def sh_eq)
    with AW WP1 show ?thesis by linarith
  next
    case False
    then have big: "int mantissa_bits < bitlen m" by simp
    then have mpos: "0 < m"
      using bitlen_eq_zero_iff [of m] by (cases "0 < m") auto
    from bitlen_bounds [OF mpos] have "2 ^ nat (bitlen m - 1) \<le> m" ..
    moreover have "nat (bitlen m - 1) = sh + (mantissa_bits - 1)"
      using big mb(1) by (simp add: sh_eq)
    ultimately have "(2::int) ^ (sh + (mantissa_bits - 1)) \<le> m"
      by simp
    then have "real_of_int (2 ^ (sh + (mantissa_bits - 1))) \<le> real_of_int m"
      by (simp only: of_int_le_iff)
    then have "S * 2 ^ (mantissa_bits - 1) \<le> A"
      using mA by (simp add: S_def power_add)
    moreover have "P = 2 * 2 ^ (mantissa_bits - 1)"
      using mb(1) by (simp add: P_def flip: power_Suc)
    ultimately have "S * P / 2 \<le> A"
      by simp
    then have "S / 2 \<le> A / P"
      using P0 by (simp add: field_simps)
    moreover have "A / P < W / P"
      using A_lt_W P0 by (simp add: divide_strict_right_mono)
    ultimately show ?thesis
      using AW by linarith
  qed
  have sh_le: "sh \<le> denormal_scale"
  proof -
    have "W < P * U"
      using NP U0 by (simp add: W_def P_def)
    with mA A_lt_W have "real_of_int m < 2 ^ (mantissa_bits + denormal_scale)"
      by (simp add: P_def U_def power_add)
    then have "real_of_int m < real_of_int (2 ^ (mantissa_bits + denormal_scale))"
      by simp
    then have "m < 2 ^ (mantissa_bits + denormal_scale)"
      by (simp only: of_int_less_iff)
    then have "bitlen m \<le> int (mantissa_bits + denormal_scale)"
      unfolding bitlen_le_iff_power by (simp add: nat_add_distrib)
    then show ?thesis
      by (simp add: sh_eq)
  qed
  define n where "n = int N * 2 ^ (denormal_scale - sh)"
  have WS: "W = of_int n * S"
  proof -
    have "U = 2 ^ (denormal_scale - sh) * S"
      using sh_le by (simp add: U_def S_def flip: power_add)
    then show ?thesis
      by (simp add: W_def n_def)
  qed
  define q where "q = round_half_even (A / S)"
  have "A / S < of_int n - 1 / 2"
  proof -
    have "1 / 2 < (W - A) / S"
      using c S0 by (simp add: field_simps)
    moreover have "(W - A) / S = of_int n - A / S"
      using S0 by (simp add: WS field_simps)
    ultimately show ?thesis by linarith
  qed
  then have q_le: "q \<le> n - 1"
    unfolding q_def by (rule round_half_even_below)
  have q0: "0 \<le> q"
    unfolding q_def using A0 S0 by (intro round_half_even_nonneg) simp
  define v where "v = of_int q * (S / U)"
  have v0: "0 \<le> v"
    using q0 S0 U0 by (simp add: v_def)
  have vN: "v < real N"
  proof -
    have "of_int q \<le> (of_int n - 1 :: real)"
      using q_le by (metis of_int_1 of_int_diff of_int_le_iff)
    then have "of_int q * (S / U) \<le> (of_int n - 1) * (S / U)"
      using S0 U0 by (intro mult_right_mono) simp_all
    also have "\<dots> = (of_int n * S - S) / U"
      by (simp add: algebra_simps diff_divide_distrib)
    also have "\<dots> = (real N * U - S) / U"
      using WS by (simp add: W_def)
    also have "\<dots> = real N - S / U"
      using U0 by (simp add: diff_divide_distrib)
    also have "\<dots> < real N"
      using S0 U0 by simp
    finally show ?thesis by (simp add: v_def)
  qed
  have no_overflow: "\<not> 2 ^ overflow_exponent \<le> v"
  proof -
    have "(2::real) ^ mantissa_bits \<le> 2 ^ overflow_exponent"
      using mb(2) by (intro power_increasing) simp_all
    with vN NP show ?thesis by linarith
  qed
  have "round_double x = Some (sgn x * v)"
    using x0 no_overflow U0
    by (simp add: round_double_def Let_def v_def q_def A_def S_def sh_def U_def)
  moreover have "0 \<le> sgn x * v" and "sgn x * v \<le> v"
    using x0 v0 by (cases "x = 0"; simp add: sgn_if)+
  ultimately show ?thesis
    using vN by auto
qed

lemma double_below_one:
  assumes "0 \<le> r" and "r < 1" and "round_double r = Some r"
  shows "r \<le> 1 - 1 / 2 ^ mantissa_bits"
proof (rule ccontr)
  assume "\<not> r \<le> 1 - 1 / 2 ^ mantissa_bits"
  then have hi: "1 - 1 / 2 ^ mantissa_bits < r" by simp
  define t where "t = denormal_scale - mantissa_bits"
  define P :: real where "P = 2 ^ mantissa_bits"
  define U :: real where "U = 2 ^ denormal_scale"
  have ds: "denormal_scale = t + mantissa_bits"
    by (simp add: t_def denormal_scale_def mantissa_bits_def)
  have U: "U = 2 ^ t * P"
    unfolding U_def P_def ds by (rule power_add)
  have P0: "0 < P" and P2: "2 \<le> P"
    by (simp_all add: P_def mantissa_bits_def)
  have U0: "0 < U" by (simp add: U_def)
  have half: "1 / 2 \<le> r"
  proof -
    have "1 / P \<le> 1 / 2"
      using P2 by (intro frac_le) simp_all
    with hi show ?thesis unfolding P_def by linarith
  qed
  have rpos: "0 < r" using half by simp
  have "denormal_scale = Suc (denormal_scale - 1)"
    by (simp add: denormal_scale_def)
  then have Uh: "U = 2 * 2 ^ (denormal_scale - 1)"
    unfolding U_def by (metis power_Suc)
  have "2 ^ (denormal_scale - 1) \<le> r * U"
    using half by (simp add: Uh)
  moreover have "r * U < 2 ^ Suc (denormal_scale - 1)"
    using assms(2) U0 by (simp add: Uh)
  ultimately have "bitlen \<lfloor>r * U\<rfloor> = int (denormal_scale - 1) + 1"
    by (rule bitlen_floor_binade)
  then have sh: "double_shift r = t"
    by (simp add: double_shift_def U_def t_def denormal_scale_def mantissa_bits_def)
  have s: "2 ^ double_shift r / 2 ^ denormal_scale = 1 / P"
    using P0 by (simp add: sh U [unfolded U_def])
  define q where "q = round_half_even (r * P)"
  from assms(3) have "Some (sgn r * (of_int q * (1 / P))) = Some r"
    using rpos by (simp add: round_double_def Let_def s q_def split: if_splits)
  then have "of_int q = r * P"
    using rpos P0 by (simp add: sgn_if field_simps)
  moreover have "P - 1 < r * P"
    using hi P0 by (simp add: P_def field_simps)
  moreover have "r * P < P"
    using assms(2) P0 by simp
  ultimately have "real_of_int (2 ^ mantissa_bits - 1) < of_int q"
    and "real_of_int q < of_int (2 ^ mantissa_bits)"
    by (simp_all add: P_def)
  then have "2 ^ mantissa_bits - 1 < q" and "q < 2 ^ mantissa_bits"
    by (simp_all only: of_int_less_iff)
  then show False by simp
qed


section \<open>Properties of the city store\<close>

lemma getRandomCity_index_bounds:
  assumes "cities \<noteq> []" and "length cities < 2 ^ 32"
    and "0 \<le> r" and "r < 1" and "round_double r = Some r"
  shows "\<exists>product. round_double (r * real (length cities)) = Some product
           \<and> getRandomCity_index cities r = Some \<lfloor>product\<rfloor>
           \<and> 0 \<le> \<lfloor>product\<rfloor> \<and> \<lfloor>product\<rfloor> < int (length cities)"
proof -
  have below: "r \<le> 1 - 1 / 2 ^ mantissa_bits"
    using assms(3,4,5) by (rule double_below_one)
  have pos: "0 < length cities"
    using assms(1) by simp
  have "real (length cities) < 2 ^ 32"
    using assms(2) by (metis of_nat_less_iff of_nat_numeral of_nat_power)
  also have "(2::real) ^ 32 \<le> 2 ^ mantissa_bits"
    by (intro power_increasing) (simp_all add: mantissa_bits_def)
  finally have small: "real (length cities) < 2 ^ mantissa_bits" .
  have "r * real (length cities) \<le> (1 - 1 / 2 ^ mantissa_bits) * real (length cities)"
    using below by (intro mult_right_mono) simp_all
  then have "r * real (length cities) \<le> real (length cities) * (1 - 1 / 2 ^ mantissa_bits)"
    by (simp add: mult.commute)
  moreover have "0 \<le> r * real (length cities)"
    using assms(3) by simp
  ultimately obtain product where
    p: "round_double (r * real (length cities)) = Some product"
       "0 \<le> product" "product < real (length cities)"
    using round_double_scaled_below [OF _ _ pos small] by blast
  from p(3) have "\<lfloor>product\<rfloor> < int (length cities)"
    by (simp add: floor_less_iff)
  moreover from p(2) have "0 \<le> \<lfloor>product\<rfloor>"
    by simp
  ultimately show ?thesis
    using p(1) by (simp add: getRandomCity_index_def)
qed

lemma getRandomCity_Some:
  assumes "cities \<noteq> []" and "length cities < 2 ^ 32"
    and "0 \<le> r" and "r < 1" and "round_double r = Some r"
  shows "\<exists>drawn. getRandomCity cities r = Some drawn \<and> drawn \<in> set cities"
proof -
  from getRandomCity_index_bounds [OF assms] obtain product :: real where
    p: "getRandomCity_index cities r = Some \<lfloor>product\<rfloor>"
       "0 \<le> \<lfloor>product\<rfloor>" "\<lfloor>product\<rfloor> < int (length cities)"
    by blast
  then have "nat \<lfloor>product\<rfloor> < length cities"
    by linarith
  then have "cities ! nat \<lfloor>product\<rfloor> \<in> set cities"
    by (rule nth_mem)
  with p show ?thesis
    by (simp add: getRandomCity_def js_index_def)
qed

lemma getRandomCity_Nil: "getRandomCity [] r = None"
  by (simp add: getRandomCity_def getRandomCity_index_def round_double_zero js_index_def)

lemma getRandomCity_first: "getRandomCity (c # cs) 0 = Some c"
  by (simp add: getRandomCity_def getRandomCity_index_def round_double_zero js_index_def)

lemma below_two_thirds_is_double:
  "0 \<le> below_two_thirds \<and> below_two_thirds < 1
   \<and> round_double below_two_thirds = Some below_two_thirds"
proof -
  have "1 / 2 \<le> below_two_thirds" and "below_two_thirds < 1"
    by (simp_all add: below_two_thirds_def)
  from round_double_from_half [OF this] show ?thesis
    by (simp add: below_two_thirds_def round_half_even_def)
qed

lemma below_two_thirds_times_three:
  "round_double (below_two_thirds * 3) = Some 2"
proof -
  have "1 \<le> below_two_thirds * 3" and "below_two_thirds * 3 < 2"
    by (simp_all add: below_two_thirds_def)
  from round_double_from_one [OF this] show ?thesis
    by (simp add: below_two_thirds_def round_half_even_def)
qed

text \<open>
  The exact product of the draw \<^verbatim>\<open>0.6666666666666666\<close> and 3 is below 2, with floor
  1; the double product is 2, and the handler draws the third city.
\<close>

theorem getRandomCity_index_counterexample:
  "0 \<le> below_two_thirds \<and> below_two_thirds < 1
   \<and> round_double below_two_thirds = Some below_two_thirds
   \<and> \<lfloor>below_two_thirds * real (length [testville, otherton, thirdburg])\<rfloor> = 1
   \<and> getRandomCity_index [testville, otherton, thirdburg] below_two_thirds = Some 2
   \<and> getRandomCity [testville, otherton, thirdburg] below_two_thirds = Some thirdburg"
proof -
  have "\<lfloor>below_two_thirds * real (length [testville, otherton, thirdburg])\<rfloor> = 1"
    by (simp add: below_two_thirds_def)
  moreover have "getRandomCity_index [testville, otherton, thirdburg] below_two_thirds = Some 2"
    by (simp add: getRandomCity_index_def below_two_thirds_times_three)
  moreover from this
  have "getRandomCity [testville, otherton, thirdburg] below_two_thirds = Some thirdburg"
    by (simp add: getRandomCity_def js_index_def)
  ultimately show ?thesis
    using below_two_thirds_is_double by simp
qed

text \<open>
  Claim C10, as the code has it. For a non-empty city list of length \<open>N\<close> (an array, so
  \<open>N < 2 ^ 32\<close>) and a draw \<open>r\<close> that is a double with \<open>0 \<le> r < 1\<close>,
  \<^verbatim>\<open>getRandomCity\<close> computes as index the floor of the double-precision product of
  \<open>r\<close> and \<open>N\<close>; the index lies in \<open>0 \<le> index < N\<close>, and the function returns
  the element of the list at that index: the read is never out of range.
\<close>

theorem getRandomCity_in_range:
  assumes "cities \<noteq> []" and "length cities < 2 ^ 32"
    and "0 \<le> r" and "r < 1" and "round_double r = Some r"
  shows "\<exists>product index.
           round_double (r * real (length cities)) = Some product
         \<and> index = \<lfloor>product\<rfloor>
         \<and> getRandomCity_index cities r = Some index
         \<and> 0 \<le> index \<and> index < int (length cities)
         \<and> getRandomCity cities r = Some (cities ! nat index)
         \<and> cities ! nat index \<in> set cities"
proof -
  from getRandomCity_index_bounds [OF assms] obtain product :: real where
    p: "round_double (r * real (length cities)) = Some product"
       "getRandomCity_index cities r = Some \<lfloor>product\<rfloor>"
       "0 \<le> \<lfloor>product\<rfloor>" "\<lfloor>product\<rfloor> < int (length cities)"
    by blast
  then have "nat \<lfloor>product\<rfloor> < length cities"
    by linarith
  then have "cities ! nat \<lfloor>product\<rfloor> \<in> set cities"
    by (rule nth_mem)
  moreover have "getRandomCity cities r = Some (cities ! nat \<lfloor>product\<rfloor>)"
    using p by (simp add: getRandomCity_def js_index_def)
  ultimately show ?thesis
    using p by blast
qed

theorem getRandomCity_in_range_witness:
  "[testville, otherton, thirdburg] \<noteq> []
   \<and> length [testville, otherton, thirdburg] < 2 ^ 32
   \<and> 0 \<le> below_two_thirds \<and> below_two_thirds < 1
   \<and> round_double below_two_thirds = Some below_two_thirds
   \<and> round_double (below_two_thirds * real (length [testville, otherton, thirdburg])) = Some 2
   \<and> getRandomCity_index [testville, otherton, thirdburg] below_two_thirds = Some 2
   \<and> getRandomCity [testville, otherton, thirdburg] below_two_thirds = Some thirdburg
   \<and> thirdburg \<in> set [testville, otherton, thirdburg]"
proof -
  have cs: "[testville, otherton, thirdburg] \<noteq> []"
    "length [testville, otherton, thirdburg] < 2 ^ 32"
    by simp_all
  have r: "0 \<le> below_two_thirds" "below_two_thirds < 1"
    "round_double below_two_thirds = Some below_two_thirds"
    using below_two_thirds_is_double by simp_all
  have prod: "round_double (below_two_thirds * real (length [testville, otherton, thirdburg]))
                = Some 2"
    using below_two_thirds_times_three by simp
  from getRandomCity_in_range [OF cs r] obtain product index where
    "round_double (below_two_thirds * real (length [testville, otherton, thirdburg]))
       = Some product"
    "index = \<lfloor>product\<rfloor>"
    "getRandomCity_index [testville, otherton, thirdburg] below_two_thirds = Some index"
    "getRandomCity [testville, otherton, thirdburg] below_two_thirds
       = Some ([testville, otherton, thirdburg] ! nat index)"
    by blast
  with prod have "getRandomCity_index [testville, otherton, thirdburg] below_two_thirds = Some 2"
    and "getRandomCity [testville, otherton, thirdburg] below_two_thirds = Some thirdburg"
    by simp_all
  with cs r prod show ?thesis
    by simp
qed

section \<open>The clients and the loop, step by step\<close>

declare randomWeather_loop.simps [simp del]

lemma reverseGeocode_returns: "\<exists>result. reverseGeocode service lat lon = Inr result"
  by (simp add: reverseGeocode_def split: sum.split)

lemma fetchWeather_returns: "\<exists>result. fetchWeather service lat lon = Inr result"
  by (simp add: fetchWeather_def split: sum.split)

lemma sleeps_append: "sleeps (xs @ ys) = sleeps xs @ sleeps ys"
  by (induction xs rule: sleeps.induct) simp_all

lemma fetchWeather_Some_D:
  assumes "fetchWeather service lat lon = Inr (Some d)"
  shows "\<exists>response. service lat lon = Responds response \<and> ok response
           \<and> json response = Inr d"
  using assms
  by (auto simp: fetchWeather_def fetchWeather_try_def fetchWithTimeout_def
           split: fetch_outcome.splits sum.splits if_splits)

lemma weather_sections_Some_D:
  assumes "weather_sections weatherData = Some (d, cur, h)"
  shows "weatherData = Some d \<and> OpenMeteoResponse.current d = Some cur
           \<and> OpenMeteoResponse.hourly d = Some h"
  using assms by (auto simp: weather_sections_def split: option.splits)

lemma js_map_Inr:
  assumes "\<forall>x\<in>set xs. f x = Inr (g x)"
  shows "js_map f xs = Inr (map g xs)"
  using assms by (induction xs) simp_all

lemma js_map_Inl:
  assumes "xs \<noteq> []" and "\<forall>x\<in>set xs. f x = Inl e"
  shows "js_map f xs = Inl e"
  using assms by (cases xs) simp_all

lemma hourlyForecast_complete:
  assumes "Hourly.time h = Some ts"
    and "Hourly.temperature_2m h = Some temps"
    and "Hourly.wind_speed_10m h = Some winds"
  shows "hourlyForecast h =
           Inr (map (\<lambda>(index, t).
                       \<lparr>HourlyForecast.time = t,
                        HourlyForecast.temperature = js_index temps (int index),
                        HourlyForecast.windSpeed = js_index winds (int index)\<rparr>)
                    (enumerate 0 (take 24 ts)))"
proof -
  have "\<forall>x\<in>set (enumerate 0 (take 24 ts)).
          hourlyEntry h x =
            Inr ((\<lambda>(index, t).
                    \<lparr>HourlyForecast.time = t,
                     HourlyForecast.temperature = js_index temps (int index),
                     HourlyForecast.windSpeed = js_index winds (int index)\<rparr>) x)"
    using assms(2,3) by (auto simp: hourlyEntry_def)
  from js_map_Inr [OF this] show ?thesis
    using assms(1) by (simp add: hourlyForecast_def)
qed

text \<open>
  Exactly when building the hourly forecast throws: there is no \<^verbatim>\<open>time\<close> array, or
  there is a time to map and one of the two other arrays is missing.
\<close>

lemma hourlyForecast_throws_iff:
  "(\<exists>e. hourlyForecast h = Inl e) \<longleftrightarrow>
     (Hourly.time h = None
      \<or> (\<exists>ts. Hourly.time h = Some ts \<and> ts \<noteq> []
            \<and> (Hourly.temperature_2m h = None \<or> Hourly.wind_speed_10m h = None)))"
proof (cases "Hourly.time h")
  case None
  then show ?thesis by (simp add: hourlyForecast_def)
next
  case (Some ts)
  show ?thesis
  proof (cases "Hourly.temperature_2m h = None \<or> Hourly.wind_speed_10m h = None")
    case True
    then have all: "\<forall>x\<in>set (enumerate 0 (take 24 ts)). hourlyEntry h x = Inl TypeError"
      by (auto simp: hourlyEntry_def split: option.splits)
    show ?thesis
    proof (cases "ts = []")
      case True
      with Some show ?thesis by (simp add: hourlyForecast_def)
    next
      case False
      then have "enumerate 0 (take 24 ts) \<noteq> []"
        by (cases ts) simp_all
      from js_map_Inl [OF this all] Some False True show ?thesis
        by (simp add: hourlyForecast_def)
    qed
  next
    case False
    then obtain temps winds where
      "Hourly.temperature_2m h = Some temps" "Hourly.wind_speed_10m h = Some winds"
      by auto
    from hourlyForecast_complete [OF Some this] Some False show ?thesis
      by simp
  qed
qed

lemma attempt_body_cases:
  assumes "getRandomCity cities (Math_random world a) = Some drawn"
  obtains
    (geo) "reverseGeocode (nominatim world a) (City.latitude drawn) (City.longitude drawn) = Inr None"
      "attempt_body cities world a =
         (Continue, [Attempt a, GeocodeRequest (City.latitude drawn) (City.longitude drawn)]
                    @ (if a < maxAttempts then [Sleep retryDelay] else []))"
  | (weather) geoResult weatherData where
      "reverseGeocode (nominatim world a) (City.latitude drawn) (City.longitude drawn) = Inr (Some geoResult)"
      "fetchWeather (open_meteo world a) (City.latitude drawn) (City.longitude drawn) = Inr weatherData"
      "weather_sections weatherData = None"
      "attempt_body cities world a =
         (Continue, [Attempt a, GeocodeRequest (City.latitude drawn) (City.longitude drawn),
                     WeatherRequest (City.latitude drawn) (City.longitude drawn)]
                    @ (if a < maxAttempts then [Sleep retryDelay] else []))"
  | (hourly) geoResult weatherData d cur h e where
      "reverseGeocode (nominatim world a) (City.latitude drawn) (City.longitude drawn) = Inr (Some geoResult)"
      "fetchWeather (open_meteo world a) (City.latitude drawn) (City.longitude drawn) = Inr weatherData"
      "weather_sections weatherData = Some (d, cur, h)"
      "hourlyForecast h = Inl e"
      "attempt_body cities world a =
         (Throw e,
          [Attempt a, GeocodeRequest (City.latitude drawn) (City.longitude drawn),
           WeatherRequest (City.latitude drawn) (City.longitude drawn)])"
  | (success) geoResult weatherData d cur h entries where
      "reverseGeocode (nominatim world a) (City.latitude drawn) (City.longitude drawn) = Inr (Some geoResult)"
      "fetchWeather (open_meteo world a) (City.latitude drawn) (City.longitude drawn) = Inr weatherData"
      "weather_sections weatherData = Some (d, cur, h)"
      "hourlyForecast h = Inr entries"
      "attempt_body cities world a =
         (Return (buildResponse drawn geoResult d cur entries),
          [Attempt a, GeocodeRequest (City.latitude drawn) (City.longitude drawn),
           WeatherRequest (City.latitude drawn) (City.longitude drawn)])"
proof -
  obtain g where g: "reverseGeocode (nominatim world a) (City.latitude drawn) (City.longitude drawn) = Inr g"
    using reverseGeocode_returns by blast
  obtain wd where wd: "fetchWeather (open_meteo world a) (City.latitude drawn) (City.longitude drawn) = Inr wd"
    using fetchWeather_returns by blast
  show thesis
  proof (cases g)
    case None
    with g assms show thesis
      by (intro geo) (simp_all add: attempt_body_def)
  next
    case (Some geoResult)
    show thesis
    proof (cases "weather_sections wd")
      case None
      with g wd Some assms show thesis
        by (intro weather[of geoResult wd]) (simp_all add: attempt_body_def)
    next
      case sect: (Some t)
      obtain d cur h where t: "t = (d, cur, h)" by (cases t) auto
      show thesis
      proof (cases "hourlyForecast h")
        case (Inl e)
        from g wd sect t Some assms Inl show thesis
          by (intro hourly[of geoResult wd d cur h e]) (simp_all add: attempt_body_def)
      next
        case (Inr entries)
        from g wd sect t Some assms Inr show thesis
          by (intro success[of geoResult wd d cur h entries]) (simp_all add: attempt_body_def)
      qed
    qed
  qed
qed

text \<open>
  A pass through the loop body throws in two cases only: no city was drawn, or the weather
  data passed the guard and building the hourly forecast threw.
\<close>

lemma attempt_body_no_throw:
  assumes "cities \<noteq> []" and "length cities < 2 ^ 32"
    and "0 \<le> Math_random world a" and "Math_random world a < 1"
    and "round_double (Math_random world a) = Some (Math_random world a)"
    and "\<forall>lat lon response d h.
           open_meteo world a lat lon = Responds response \<and> json response = Inr d
           \<and> OpenMeteoResponse.hourly d = Some h
           \<longrightarrow> Hourly.time h \<noteq> None \<and> Hourly.temperature_2m h \<noteq> None
               \<and> Hourly.wind_speed_10m h \<noteq> None"
  shows "fst (attempt_body cities world a) \<noteq> Throw e"
proof -
  obtain drawn where "getRandomCity cities (Math_random world a) = Some drawn"
    using getRandomCity_Some [OF assms(1-5)] by blast
  then show ?thesis
  proof (cases rule: attempt_body_cases)
    case (hourly geoResult weatherData d cur h e')
    from weather_sections_Some_D [OF hourly(3)] have
      wd: "weatherData = Some d" and h: "OpenMeteoResponse.hourly d = Some h"
      by simp_all
    from fetchWeather_Some_D [OF hourly(2) [unfolded wd]] obtain response where
      "open_meteo world a (City.latitude drawn) (City.longitude drawn) = Responds response"
      "json response = Inr d"
      by blast
    with assms(6) h obtain ts temps winds where
      "Hourly.time h = Some ts" "Hourly.temperature_2m h = Some temps"
      "Hourly.wind_speed_10m h = Some winds"
      by blast
    from hourlyForecast_complete [OF this] hourly(4) show ?thesis
      by simp
  qed simp_all
qed

lemma loop_step_Continue:
  assumes "a \<le> maxAttempts" and "fst (attempt_body cities world a) = Continue"
  shows "randomWeather_loop cities world a tr =
         randomWeather_loop cities world (Suc a) (tr @ snd (attempt_body cities world a))"
  using assms
  by (cases "attempt_body cities world a") (simp add: randomWeather_loop.simps [of cities world a])

lemma loop_step_Return:
  assumes "a \<le> maxAttempts" and "fst (attempt_body cities world a) = Return w"
  shows "randomWeather_loop cities world a tr =
         (Inr \<lparr>statusCode = 200, body = WeatherBody w\<rparr>, tr @ snd (attempt_body cities world a))"
  using assms
  by (cases "attempt_body cities world a") (simp add: randomWeather_loop.simps [of cities world a])

lemma loop_step_Throw:
  assumes "a \<le> maxAttempts" and "fst (attempt_body cities world a) = Throw e"
  shows "randomWeather_loop cities world a tr = (Inl e, tr @ snd (attempt_body cities world a))"
  using assms
  by (cases "attempt_body cities world a") (simp add: randomWeather_loop.simps [of cities world a])

lemma loop_done:
  assumes "maxAttempts < a"
  shows "randomWeather_loop cities world a tr =
         (Inr \<lparr>statusCode = 503,
               body = ErrorBody \<lparr>error = ''Service Unavailable'',
                                 message = unavailable_message\<rparr>\<rparr>, tr)"
  using assms
  by (subst randomWeather_loop.simps) simp

lemma loop_success:
  assumes "a \<le> k" and "k \<le> maxAttempts"
    and "\<forall>j. a \<le> j \<and> j < k \<longrightarrow> fst (attempt_body cities world j) = Continue"
    and "fst (attempt_body cities world k) = Return w"
  shows "randomWeather_loop cities world a tr =
         (Inr \<lparr>statusCode = 200, body = WeatherBody w\<rparr>,
          tr @ concat (map (\<lambda>j. snd (attempt_body cities world j)) [a..<Suc k]))"
  using assms
proof (induction "k - a" arbitrary: a tr)
  case 0
  then have "a = k" by simp
  with 0 show ?case
    by (simp add: loop_step_Return)
next
  case (Suc n)
  then have lt: "a < k" by simp
  with Suc.prems have c: "fst (attempt_body cities world a) = Continue" by simp
  have "randomWeather_loop cities world (Suc a) (tr @ snd (attempt_body cities world a)) =
        (Inr \<lparr>statusCode = 200, body = WeatherBody w\<rparr>,
         (tr @ snd (attempt_body cities world a))
           @ concat (map (\<lambda>j. snd (attempt_body cities world j)) [Suc a..<Suc k]))"
    using Suc.hyps(2) Suc.prems lt by (intro Suc.hyps(1)) auto
  moreover have "[a..<Suc k] = a # [Suc a..<Suc k]"
    using lt by (simp add: upt_conv_Cons)
  ultimately show ?case
    using lt Suc.prems(2) c by (simp add: loop_step_Continue)
qed

lemma loop_exhausted:
  assumes "\<forall>j. a \<le> j \<and> j \<le> maxAttempts \<longrightarrow> fst (attempt_body cities world j) = Continue"
  shows "randomWeather_loop cities world a tr =
         (Inr \<lparr>statusCode = 503,
               body = ErrorBody \<lparr>error = ''Service Unavailable'',
                                 message = unavailable_message\<rparr>\<rparr>,
          tr @ concat (map (\<lambda>j. snd (attempt_body cities world j)) [a..<Suc maxAttempts]))"
  using assms
proof (induction "Suc maxAttempts - a" arbitrary: a tr)
  case 0
  then have "maxAttempts < a" by simp
  then show ?case by (simp add: loop_done)
next
  case (Suc n)
  then have le: "a \<le> maxAttempts" by simp
  with Suc.prems have c: "fst (attempt_body cities world a) = Continue" by simp
  have "randomWeather_loop cities world (Suc a) (tr @ snd (attempt_body cities world a)) =
        (Inr \<lparr>statusCode = 503,
               body = ErrorBody \<lparr>error = ''Service Unavailable'',
                                 message = unavailable_message\<rparr>\<rparr>,
         (tr @ snd (attempt_body cities world a))
           @ concat (map (\<lambda>j. snd (attempt_body cities world j)) [Suc a..<Suc maxAttempts]))"
    using Suc.hyps(2) Suc.prems by (intro Suc.hyps(1)) auto
  moreover have "[a..<Suc maxAttempts] = a # [Suc a..<Suc maxAttempts]"
    using le by (simp add: upt_conv_Cons)
  ultimately show ?case
    using le c by (simp add: loop_step_Continue)
qed

lemma loop_200_inversion:
  assumes "fst (randomWeather_loop cities world a tr) = Inr \<lparr>statusCode = 200, body = WeatherBody w\<rparr>"
  shows "\<exists>k. a \<le> k \<and> k \<le> maxAttempts
            \<and> (\<forall>j. a \<le> j \<and> j < k \<longrightarrow> fst (attempt_body cities world j) = Continue)
            \<and> fst (attempt_body cities world k) = Return w"
  using assms
proof (induction "Suc maxAttempts - a" arbitrary: a tr)
  case 0
  then have "maxAttempts < a" by simp
  with 0 show ?case by (simp add: loop_done)
next
  case (Suc n)
  then have le: "a \<le> maxAttempts" by simp
  show ?case
  proof (cases "fst (attempt_body cities world a)")
    case Continue
    with le Suc.prems have
      "fst (randomWeather_loop cities world (Suc a) (tr @ snd (attempt_body cities world a)))
         = Inr \<lparr>statusCode = 200, body = WeatherBody w\<rparr>"
      by (simp add: loop_step_Continue)
    moreover have "n = Suc maxAttempts - Suc a"
      using Suc.hyps(2) by simp
    ultimately obtain k where k: "Suc a \<le> k" "k \<le> maxAttempts"
      "\<forall>j. Suc a \<le> j \<and> j < k \<longrightarrow> fst (attempt_body cities world j) = Continue"
      "fst (attempt_body cities world k) = Return w"
      using Suc.hyps(1) by blast
    have "\<forall>j. a \<le> j \<and> j < k \<longrightarrow> fst (attempt_body cities world j) = Continue"
    proof (intro allI impI)
      fix j assume "a \<le> j \<and> j < k"
      then consider "j = a" | "Suc a \<le> j \<and> j < k" by linarith
      then show "fst (attempt_body cities world j) = Continue"
        using Continue k(3) by cases auto
    qed
    with k show ?thesis
      by (intro exI[of _ k]) simp
  next
    case (Return w')
    with le Suc.prems have "w' = w"
      by (simp add: loop_step_Return)
    with Return le show ?thesis
      by (intro exI[of _ a]) auto
  next
    case (Throw e)
    with le Suc.prems show ?thesis
      by (simp add: loop_step_Throw)
  qed
qed

lemma attempt_body_Return_D:
  assumes "fst (attempt_body cities world k) = Return w"
  shows "\<exists>drawn geoResult weatherData d cur h entries.
           getRandomCity cities (Math_random world k) = Some drawn
         \<and> reverseGeocode (nominatim world k) (City.latitude drawn) (City.longitude drawn)
             = Inr (Some geoResult)
         \<and> fetchWeather (open_meteo world k) (City.latitude drawn) (City.longitude drawn)
             = Inr weatherData
         \<and> weather_sections weatherData = Some (d, cur, h)
         \<and> hourlyForecast h = Inr entries
         \<and> w = buildResponse drawn geoResult d cur entries"
proof (cases "getRandomCity cities (Math_random world k)")
  case None
  with assms show ?thesis by (simp add: attempt_body_def)
next
  case (Some drawn)
  then show ?thesis
  proof (cases rule: attempt_body_cases)
    case geo
    with assms show ?thesis by simp
  next
    case (weather geoResult weatherData)
    with assms show ?thesis by simp
  next
    case (hourly geoResult weatherData d cur h e)
    with assms show ?thesis by simp
  next
    case (success geoResult weatherData d cur h entries)
    with assms Some show ?thesis by auto
  qed
qed

lemma attempt_body_Continue_iff:
  "fst (attempt_body cities world a) = Continue \<longleftrightarrow>
   (\<exists>drawn. getRandomCity cities (Math_random world a) = Some drawn
      \<and> (reverseGeocode (nominatim world a) (City.latitude drawn) (City.longitude drawn) = Inr None
         \<or> (\<exists>geoResult weatherData.
               reverseGeocode (nominatim world a) (City.latitude drawn) (City.longitude drawn)
                 = Inr (Some geoResult)
             \<and> fetchWeather (open_meteo world a) (City.latitude drawn) (City.longitude drawn)
                 = Inr weatherData
             \<and> weather_sections weatherData = None)))"
proof (cases "getRandomCity cities (Math_random world a)")
  case None
  then show ?thesis by (simp add: attempt_body_def)
next
  case (Some drawn)
  then show ?thesis
    by (cases rule: attempt_body_cases) (simp_all add: Some)
qed

lemma attempt_body_Continue_events:
  assumes "fst (attempt_body cities world a) = Continue"
  shows "\<exists>calls. snd (attempt_body cities world a)
                   = calls @ (if a < maxAttempts then [Sleep retryDelay] else [])
               \<and> sleeps calls = []"
proof (cases "getRandomCity cities (Math_random world a)")
  case None
  with assms show ?thesis by (simp add: attempt_body_def)
next
  case (Some drawn)
  then show ?thesis
  proof (cases rule: attempt_body_cases)
    case geo
    then show ?thesis
      by (intro exI[of _ "[Attempt a, GeocodeRequest (City.latitude drawn) (City.longitude drawn)]"]) simp
  next
    case (weather geoResult weatherData)
    then show ?thesis
      by (intro exI[of _ "[Attempt a, GeocodeRequest (City.latitude drawn) (City.longitude drawn),
                           WeatherRequest (City.latitude drawn) (City.longitude drawn)]"]) simp
  next
    case (hourly geoResult weatherData d cur h e)
    with assms show ?thesis by simp
  next
    case (success geoResult weatherData d cur h entries)
    with assms show ?thesis by simp
  qed
qed

lemma attempt_body_Continue_sleeps:
  assumes "fst (attempt_body cities world a) = Continue"
  shows "sleeps (snd (attempt_body cities world a))
         = (if a < maxAttempts then [retryDelay] else [])"
  using attempt_body_Continue_events [OF assms]
  by (auto simp: sleeps_append)

lemma sleeps_failed_attempts:
  assumes "\<forall>j. a \<le> j \<and> j < b \<longrightarrow> fst (attempt_body cities world j) = Continue"
    and "b \<le> maxAttempts"
  shows "sleeps (concat (map (\<lambda>j. snd (attempt_body cities world j)) [a..<b]))
         = replicate (b - a) retryDelay"
  using assms
proof (induction b)
  case 0
  then show ?case by simp
next
  case (Suc b)
  show ?case
  proof (cases "a \<le> b")
    case True
    from Suc.prems have "fst (attempt_body cities world b) = Continue"
      using True by simp
    then have "sleeps (snd (attempt_body cities world b)) = [retryDelay]"
      using Suc.prems(2) by (simp add: attempt_body_Continue_sleeps)
    moreover have "sleeps (concat (map (\<lambda>j. snd (attempt_body cities world j)) [a..<b]))
                   = replicate (b - a) retryDelay"
      using Suc.prems by (intro Suc.IH) auto
    ultimately show ?thesis
      using True by (simp add: sleeps_append Suc_diff_le replicate_append_same)
  next
    case False
    then show ?thesis by simp
  qed
qed

lemmas scenario_defs =
  testville_def testville_place_def testville_located_def testville_current_def
  testville_hourly_def testville_entries_def testville_forecast_def testville_response_def
  forecast_without_sections_def hollow_hourly_def hollow_forecast_def
  geocoder_up_def geocoder_down_def geocoder_slow_def geocoder_limited_def geocoder_nameless_def
  weather_up_def weather_down_def weather_failing_def weather_bare_def weather_hollow_def
  world_up_def world_down_def world_hollow_def world_recovering_def

lemmas client_defs =
  getRandomCity_first getRandomCity_Nil js_index_def
  reverseGeocode_def reverseGeocode_try_def fetchWeather_def fetchWeather_try_def
  fetchWithTimeout_def ok_def address_country_def weather_sections_def
  hourlyForecast_def hourlyEntry_def

section \<open>The scenarios, run\<close>

lemma testville_response_built:
  "buildResponse testville testville_located testville_forecast testville_current
     testville_entries = testville_response"
  by (simp add: buildResponse_def scenario_defs temperatureUnit_literal_def
        geocoding_attribution_def weather_attribution_def)

lemma testville_hourly_entries: "hourlyForecast testville_hourly = Inr testville_entries"
  by (simp add: client_defs testville_hourly_def testville_entries_def)

lemmas run_defs =
  attempt_body_def client_defs scenario_defs buildResponse_def temperatureUnit_literal_def
  geocoding_attribution_def weather_attribution_def

lemma world_up_attempt:
  "attempt_body [testville] world_up a =
     (Return testville_response, [Attempt a, GeocodeRequest 10 20, WeatherRequest 10 20])"
  by (simp add: run_defs)

lemma world_down_attempt:
  "attempt_body [testville] world_down a =
     (Continue, [Attempt a, GeocodeRequest 10 20] @ (if a < maxAttempts then [Sleep retryDelay] else []))"
  by (simp add: run_defs)

lemma world_recovering_attempt:
  "attempt_body [testville] world_recovering a =
     (if a < 3
      then (Continue, [Attempt a, GeocodeRequest 10 20] @ (if a < maxAttempts then [Sleep retryDelay] else []))
      else (Return testville_response, [Attempt a, GeocodeRequest 10 20, WeatherRequest 10 20]))"
  by (simp add: run_defs)

lemma world_hollow_attempt:
  "attempt_body [testville] world_hollow a =
     (Throw TypeError, [Attempt a, GeocodeRequest 10 20, WeatherRequest 10 20])"
  by (simp add: run_defs)

lemma empty_dataset_attempt:
  "attempt_body [] world a = (Throw TypeError, [Attempt a])"
  by (simp add: attempt_body_def getRandomCity_Nil)

lemma buildResponse_fixed_fields:
  "ForecastCurrent.temperatureUnit
     (Forecast.current (forecast (buildResponse drawn g d cur entries)))
     = temperatureUnit_literal
   \<and> ForecastCurrent.windSpeedUnit
       (Forecast.current (forecast (buildResponse drawn g d cur entries)))
     = ''km/h''
   \<and> dataSources (buildResponse drawn g d cur entries)
     = \<lparr>geocoding = geocoding_attribution, weather = weather_attribution\<rparr>"
  by (simp add: buildResponse_def)

text \<open>Every 200 response carries the same unit strings and attribution strings.\<close>

lemma every_response_fixed_fields:
  assumes "fst (randomWeather cities world)
             = Inr \<lparr>statusCode = 200, body = WeatherBody w\<rparr>"
  shows "ForecastCurrent.temperatureUnit (Forecast.current (forecast w))
           = temperatureUnit_literal
       \<and> ForecastCurrent.windSpeedUnit (Forecast.current (forecast w)) = ''km/h''
       \<and> dataSources w = \<lparr>geocoding = geocoding_attribution, weather = weather_attribution\<rparr>"
proof -
  from assms have "fst (randomWeather_loop cities world 1 [])
                     = Inr \<lparr>statusCode = 200, body = WeatherBody w\<rparr>"
    by (simp add: randomWeather_def)
  from loop_200_inversion [OF this] obtain k where
    "fst (attempt_body cities world k) = Return w"
    by blast
  from attempt_body_Return_D [OF this] obtain drawn geoResult d cur entries where
    "w = buildResponse drawn geoResult d cur entries"
    by blast
  then show ?thesis
    by (simp add: buildResponse_fixed_fields)
qed

section \<open>Startup\<close>

text \<open>
  A dataset file that holds the empty array parses, so nothing is thrown, nothing is caught
  and the process goes on to serve with an empty city list.
\<close>

theorem load_cities_empty_counterexample:
  "load_cities (Parsed []) = Serving []"
  by (simp add: load_cities_def)

text \<open>
  Claim C8, as the code has it. When the dataset file cannot be read or is not JSON, the
  process exits with status 1 and serves no request; a process that serves has read and
  parsed the file, and its city list is the array that was in it.
\<close>

theorem load_cities_fatal:
  "(f = ReadThrows \<or> f = ParseThrows \<longrightarrow> load_cities f = Exited 1)
   \<and> (load_cities f = Serving cities \<longrightarrow> f = Parsed cities)"
  by (cases f) (simp_all add: load_cities_def)

theorem load_cities_fatal_witness:
  "load_cities ReadThrows = Exited 1 \<and> load_cities ParseThrows = Exited 1
   \<and> load_cities (Parsed [testville]) = Serving [testville]"
  using load_cities_fatal [of ReadThrows] load_cities_fatal [of ParseThrows]
    load_cities_fatal [of "Parsed [testville]" "[testville]"]
  by (simp add: load_cities_def)

section \<open>The geocoding client\<close>

text \<open>
  Claim C7. \<^verbatim>\<open>reverseGeocode\<close> always returns and never throws. It returns
  \<^verbatim>\<open>null\<close> when the call times out, when the transport fails, when the status is
  not 2xx, and when the response has no display name or no country. When it returns a
  location, the service answered with a 2xx status and a body that holds both fields, and
  the location carries exactly these two values.
\<close>

theorem reverseGeocode_contract:
  "(\<exists>result. reverseGeocode service lat lon = Inr result)
   \<and> (service lat lon = TimedOut \<longrightarrow> reverseGeocode service lat lon = Inr None)
   \<and> (service lat lon = NetworkFailure \<longrightarrow> reverseGeocode service lat lon = Inr None)
   \<and> (\<forall>response. service lat lon = Responds response \<and> \<not> ok response
         \<longrightarrow> reverseGeocode service lat lon = Inr None)
   \<and> (\<forall>response data. service lat lon = Responds response \<and> json response = Inr data
           \<and> (display_name data = None \<or> address_country data = None)
         \<longrightarrow> reverseGeocode service lat lon = Inr None)
   \<and> (\<forall>geoResult. reverseGeocode service lat lon = Inr (Some geoResult)
         \<longrightarrow> (\<exists>response data. service lat lon = Responds response \<and> ok response
                \<and> json response = Inr data
                \<and> display_name data = Some (GeoResult.displayName geoResult)
                \<and> address_country data = Some (GeoResult.country geoResult)))"
proof (intro conjI allI impI)
  show "\<exists>result. reverseGeocode service lat lon = Inr result"
    by (rule reverseGeocode_returns)
next
  assume "service lat lon = TimedOut"
  then show "reverseGeocode service lat lon = Inr None"
    by (simp add: reverseGeocode_def reverseGeocode_try_def fetchWithTimeout_def)
next
  assume "service lat lon = NetworkFailure"
  then show "reverseGeocode service lat lon = Inr None"
    by (simp add: reverseGeocode_def reverseGeocode_try_def fetchWithTimeout_def)
next
  fix response
  assume "service lat lon = Responds response \<and> \<not> ok response"
  then show "reverseGeocode service lat lon = Inr None"
    by (simp add: reverseGeocode_def reverseGeocode_try_def fetchWithTimeout_def)
next
  fix response data
  assume "service lat lon = Responds response \<and> json response = Inr data
          \<and> (display_name data = None \<or> address_country data = None)"
  then show "reverseGeocode service lat lon = Inr None"
    by (auto simp: reverseGeocode_def reverseGeocode_try_def fetchWithTimeout_def
             split: option.split)
next
  fix geoResult
  assume "reverseGeocode service lat lon = Inr (Some geoResult)"
  then show "\<exists>response data. service lat lon = Responds response \<and> ok response
                \<and> json response = Inr data
                \<and> display_name data = Some (GeoResult.displayName geoResult)
                \<and> address_country data = Some (GeoResult.country geoResult)"
    by (auto simp: reverseGeocode_def reverseGeocode_try_def fetchWithTimeout_def
             split: fetch_outcome.splits sum.splits option.splits if_splits)
qed

theorem reverseGeocode_contract_witness:
  "reverseGeocode geocoder_slow 10 20 = Inr None
   \<and> reverseGeocode geocoder_down 10 20 = Inr None
   \<and> reverseGeocode geocoder_limited 10 20 = Inr None
   \<and> reverseGeocode geocoder_nameless 10 20 = Inr None
   \<and> reverseGeocode geocoder_up 10 20 = Inr (Some testville_located)
   \<and> display_name testville_place = Some (GeoResult.displayName testville_located)
   \<and> address_country testville_place = Some (GeoResult.country testville_located)"
proof -
  have slow: "geocoder_slow 10 20 = TimedOut"
    by (simp add: geocoder_slow_def)
  have down: "geocoder_down 10 20 = NetworkFailure"
    by (simp add: geocoder_down_def)
  have limited: "geocoder_limited 10 20 = Responds (Response 429 (Inr testville_place))
                 \<and> \<not> ok (Response 429 (Inr testville_place))"
    by (simp add: geocoder_limited_def ok_def)
  have nameless:
    "geocoder_nameless 10 20 = Responds (Response 200 (Inr \<lparr>display_name = None, address = None\<rparr>))
     \<and> json (Response 200 (Inr \<lparr>display_name = None, address = None\<rparr>))
         = Inr \<lparr>display_name = None, address = None\<rparr>
     \<and> (display_name \<lparr>display_name = None, address = None\<rparr> = None
        \<or> address_country \<lparr>display_name = None, address = None\<rparr> = None)"
    by (simp add: geocoder_nameless_def)
  have up: "reverseGeocode geocoder_up 10 20 = Inr (Some testville_located)"
    by (simp add: client_defs scenario_defs)
  from reverseGeocode_contract [of geocoder_slow 10 20] slow
  have 1: "reverseGeocode geocoder_slow 10 20 = Inr None" by blast
  from reverseGeocode_contract [of geocoder_down 10 20] down
  have 2: "reverseGeocode geocoder_down 10 20 = Inr None" by blast
  from reverseGeocode_contract [of geocoder_limited 10 20] limited
  have 3: "reverseGeocode geocoder_limited 10 20 = Inr None" by blast
  from reverseGeocode_contract [of geocoder_nameless 10 20] nameless
  have 4: "reverseGeocode geocoder_nameless 10 20 = Inr None" by blast
  from reverseGeocode_contract [of geocoder_up 10 20] up
  obtain response data where
    "geocoder_up 10 20 = Responds response" "json response = Inr data"
    "display_name data = Some (GeoResult.displayName testville_located)"
    "address_country data = Some (GeoResult.country testville_located)"
    by blast
  then have 5: "display_name testville_place = Some (GeoResult.displayName testville_located)
              \<and> address_country testville_place = Some (GeoResult.country testville_located)"
    by (auto simp: geocoder_up_def)
  from 1 2 3 4 5 up show ?thesis by simp
qed

section \<open>The weather client\<close>

text \<open>
  A 200 response whose body has neither a \<^verbatim>\<open>current\<close> nor an \<^verbatim>\<open>hourly\<close>
  section: \<^verbatim>\<open>fetchWeather\<close> returns the body, not \<^verbatim>\<open>null\<close>.
\<close>

theorem fetchWeather_missing_sections_counterexample:
  "OpenMeteoResponse.current forecast_without_sections = None
   \<and> OpenMeteoResponse.hourly forecast_without_sections = None
   \<and> weather_bare 10 20 = Responds (Response 200 (Inr forecast_without_sections))
   \<and> fetchWeather weather_bare 10 20 = Inr (Some forecast_without_sections)
   \<and> fetchWeather weather_bare 10 20 \<noteq> Inr None"
  by (simp add: client_defs scenario_defs)

text \<open>
  Claim C6, as the code has it. \<^verbatim>\<open>fetchWeather\<close> returns \<^verbatim>\<open>null\<close> on a
  transport error, on a timeout and on a status that is not 2xx. On a 2xx response it
  returns the parsed body as it is; when that body lacks the \<^verbatim>\<open>current\<close> or the
  \<^verbatim>\<open>hourly\<close> section, it is the guard of the handler that rejects it, and the
  attempt ends at \<^verbatim>\<open>continue\<close> like one whose weather call returned
  \<^verbatim>\<open>null\<close>.
\<close>

theorem fetchWeather_contract:
  "(service lat lon = NetworkFailure \<or> service lat lon = TimedOut
      \<longrightarrow> fetchWeather service lat lon = Inr None)
   \<and> (\<forall>response. service lat lon = Responds response \<and> \<not> ok response
         \<longrightarrow> fetchWeather service lat lon = Inr None)
   \<and> (\<forall>response data. service lat lon = Responds response \<and> ok response
           \<and> json response = Inr data
         \<longrightarrow> fetchWeather service lat lon = Inr (Some data)
             \<and> (OpenMeteoResponse.current data = None \<or> OpenMeteoResponse.hourly data = None
                  \<longrightarrow> weather_sections (Some data) = None))
   \<and> (\<forall>cities world a drawn geoResult weatherData.
         getRandomCity cities (Math_random world a) = Some drawn
         \<and> reverseGeocode (nominatim world a) (City.latitude drawn) (City.longitude drawn)
             = Inr (Some geoResult)
         \<and> fetchWeather (open_meteo world a) (City.latitude drawn) (City.longitude drawn)
             = Inr weatherData
         \<and> weather_sections weatherData = None
         \<longrightarrow> fst (attempt_body cities world a) = Continue)"
proof (intro conjI allI impI)
  assume "service lat lon = NetworkFailure \<or> service lat lon = TimedOut"
  then show "fetchWeather service lat lon = Inr None"
    by (auto simp: fetchWeather_def fetchWeather_try_def fetchWithTimeout_def)
next
  fix response
  assume "service lat lon = Responds response \<and> \<not> ok response"
  then show "fetchWeather service lat lon = Inr None"
    by (simp add: fetchWeather_def fetchWeather_try_def fetchWithTimeout_def)
next
  fix response data
  assume "service lat lon = Responds response \<and> ok response \<and> json response = Inr data"
  then show "fetchWeather service lat lon = Inr (Some data)"
    by (simp add: fetchWeather_def fetchWeather_try_def fetchWithTimeout_def)
next
  fix data :: OpenMeteoResponse
  assume "OpenMeteoResponse.current data = None \<or> OpenMeteoResponse.hourly data = None"
  then show "weather_sections (Some data) = None"
    by (auto simp: weather_sections_def split: option.split)
next
  fix cities and world :: World and a drawn geoResult weatherData
  assume "getRandomCity cities (Math_random world a) = Some drawn
         \<and> reverseGeocode (nominatim world a) (City.latitude drawn) (City.longitude drawn)
             = Inr (Some geoResult)
         \<and> fetchWeather (open_meteo world a) (City.latitude drawn) (City.longitude drawn)
             = Inr weatherData
         \<and> weather_sections weatherData = None"
  then show "fst (attempt_body cities world a) = Continue"
    by (subst attempt_body_Continue_iff) blast
qed

theorem fetchWeather_contract_witness:
  "fetchWeather weather_down 10 20 = Inr None
   \<and> fetchWeather weather_failing 10 20 = Inr None
   \<and> fetchWeather weather_bare 10 20 = Inr (Some forecast_without_sections)
   \<and> weather_sections (Some forecast_without_sections) = None
   \<and> fst (attempt_body [testville]
            \<lparr>Math_random = Math_random world_up, nominatim = nominatim world_up,
             open_meteo = open_meteo world_down\<rparr> 1) = Continue"
proof -
  have down: "weather_down 10 20 = NetworkFailure \<or> weather_down 10 20 = TimedOut"
    by (simp add: weather_down_def)
  have failing: "weather_failing 10 20 = Responds (Response 500 (Inr testville_forecast))
                   \<and> \<not> ok (Response 500 (Inr testville_forecast))"
    by (simp add: weather_failing_def ok_def)
  have bare: "weather_bare 10 20 = Responds (Response 200 (Inr forecast_without_sections))
                \<and> ok (Response 200 (Inr forecast_without_sections))
                \<and> json (Response 200 (Inr forecast_without_sections)) = Inr forecast_without_sections"
    by (simp add: weather_bare_def ok_def)
  have missing: "OpenMeteoResponse.current forecast_without_sections = None
                   \<or> OpenMeteoResponse.hourly forecast_without_sections = None"
    by (simp add: forecast_without_sections_def)
  let ?world = "\<lparr>Math_random = Math_random world_up, nominatim = nominatim world_up,
                  open_meteo = open_meteo world_down\<rparr>"
  have attempt: "getRandomCity [testville] (Math_random ?world 1) = Some testville
         \<and> reverseGeocode (nominatim ?world 1) (City.latitude testville) (City.longitude testville)
             = Inr (Some testville_located)
         \<and> fetchWeather (open_meteo ?world 1) (City.latitude testville) (City.longitude testville)
             = Inr None
         \<and> weather_sections None = None"
    by (simp add: client_defs scenario_defs)
  from fetchWeather_contract [of weather_down 10 20] down
  have 1: "fetchWeather weather_down 10 20 = Inr None" by blast
  from fetchWeather_contract [of weather_failing 10 20] failing
  have 2: "fetchWeather weather_failing 10 20 = Inr None" by blast
  from fetchWeather_contract [of weather_bare 10 20] bare missing
  have 3: "fetchWeather weather_bare 10 20 = Inr (Some forecast_without_sections)
           \<and> weather_sections (Some forecast_without_sections) = None" by blast
  from fetchWeather_contract [of weather_bare 10 20] attempt
  have 4: "fst (attempt_body [testville] ?world 1) = Continue" by blast
  from 1 2 3 4 show ?thesis by simp
qed

section \<open>The hourly forecast\<close>



section \<open>The endpoint\<close>

text \<open>
  Two requests that end with neither a 200 nor a 503. With the empty dataset loaded, the
  first pass through the loop reads \<^verbatim>\<open>city.name\<close> of \<^verbatim>\<open>undefined\<close>. With
  Testville loaded and a weather service that answers 200 with an \<^verbatim>\<open>hourly\<close> section
  that is the empty object, the data passes the guard and the handler calls
  \<^verbatim>\<open>slice\<close> on \<^verbatim>\<open>undefined\<close>. Both times the handler throws a
  \<^verbatim>\<open>TypeError\<close>.
\<close>

theorem randomWeather_throws_counterexample:
  "load_cities (Parsed []) = Serving []
   \<and> fst (randomWeather [] world_up) = Inl TypeError
   \<and> [testville] \<noteq> []
   \<and> fetchWeather weather_hollow 10 20 = Inr (Some hollow_forecast)
   \<and> weather_sections (Some hollow_forecast)
       = Some (hollow_forecast, testville_current, hollow_hourly)
   \<and> fst (randomWeather [testville] world_hollow) = Inl TypeError"
proof -
  have le: "1 \<le> maxAttempts"
    by (simp add: maxAttempts_def)
  have "fst (attempt_body [] world_up 1) = Throw TypeError"
    by (simp add: empty_dataset_attempt)
  with le have "randomWeather_loop [] world_up 1 [] =
                     (Inl TypeError, [] @ snd (attempt_body [] world_up 1))"
    by (intro loop_step_Throw)
  then have empty: "fst (randomWeather [] world_up) = Inl TypeError"
    by (simp add: randomWeather_def)
  have "fst (attempt_body [testville] world_hollow 1) = Throw TypeError"
    by (simp add: world_hollow_attempt)
  with le have "randomWeather_loop [testville] world_hollow 1 [] =
                     (Inl TypeError, [] @ snd (attempt_body [testville] world_hollow 1))"
    by (intro loop_step_Throw)
  then have hollow: "fst (randomWeather [testville] world_hollow) = Inl TypeError"
    by (simp add: randomWeather_def)
  have "fetchWeather weather_hollow 10 20 = Inr (Some hollow_forecast)"
    "weather_sections (Some hollow_forecast)
       = Some (hollow_forecast, testville_current, hollow_hourly)"
    by (simp_all add: client_defs weather_hollow_def hollow_forecast_def)
  with empty hollow show ?thesis
    by (simp add: load_cities_def)
qed

text \<open>
  Claim C1, as the code has it. Let the loaded city list be non-empty (an array, so shorter
  than \<open>2 ^ 32\<close>), let every value of \<^verbatim>\<open>Math.random()\<close> be a double in
  \<open>[0, 1)\<close>, and let every \<^verbatim>\<open>hourly\<close> section the weather service answers with
  hold its three arrays. Then the handler sends exactly one of two responses: status 200
  with a \<^verbatim>\<open>WeatherResponse\<close>, or status 503 with the fixed error body. It sends the
  200 exactly when one of the attempts 1 to 10 reaches the \<^verbatim>\<open>return\<close>, and the 503
  otherwise.
\<close>

theorem randomWeather_outcomes:
  assumes "cities \<noteq> []" and "length cities < 2 ^ 32"
    and "\<forall>a. 0 \<le> Math_random world a \<and> Math_random world a < 1
             \<and> round_double (Math_random world a) = Some (Math_random world a)"
    and "\<forall>a lat lon response d h.
           open_meteo world a lat lon = Responds response \<and> json response = Inr d
           \<and> OpenMeteoResponse.hourly d = Some h
           \<longrightarrow> Hourly.time h \<noteq> None \<and> Hourly.temperature_2m h \<noteq> None
               \<and> Hourly.wind_speed_10m h \<noteq> None"
  shows "((\<exists>w. fst (randomWeather cities world) = Inr \<lparr>statusCode = 200, body = WeatherBody w\<rparr>)
          \<or> fst (randomWeather cities world)
              = Inr \<lparr>statusCode = 503,
                     body = ErrorBody
                       \<lparr>error = ''Service Unavailable'',
                        message = ''Unable to resolve a valid location after multiple attempts. The geocoding service may be temporarily unavailable or rate-limited. Please try again in a few moments.''\<rparr>\<rparr>)
       \<and> ((\<exists>w. fst (randomWeather cities world) = Inr \<lparr>statusCode = 200, body = WeatherBody w\<rparr>)
            \<longleftrightarrow> (\<exists>k w. 1 \<le> k \<and> k \<le> maxAttempts \<and> fst (attempt_body cities world k) = Return w))"
proof -
  let ?P = "\<lambda>k. 1 \<le> k \<and> k \<le> maxAttempts \<and> (\<exists>w. fst (attempt_body cities world k) = Return w)"
  let ?ok = "\<exists>w. fst (randomWeather cities world) = Inr \<lparr>statusCode = 200, body = WeatherBody w\<rparr>"
  have no_throw: "fst (attempt_body cities world a) \<noteq> Throw e" for a e
  proof (rule attempt_body_no_throw)
    show "cities \<noteq> []" "length cities < 2 ^ 32"
      by fact+
    show "0 \<le> Math_random world a" "Math_random world a < 1"
      "round_double (Math_random world a) = Some (Math_random world a)"
      using assms(3) by simp_all
    show "\<forall>lat lon response d h.
           open_meteo world a lat lon = Responds response \<and> json response = Inr d
           \<and> OpenMeteoResponse.hourly d = Some h
           \<longrightarrow> Hourly.time h \<noteq> None \<and> Hourly.temperature_2m h \<noteq> None
               \<and> Hourly.wind_speed_10m h \<noteq> None"
      using assms(4) by blast
  qed
  have fwd: "?ok" if "\<exists>k. ?P k"
  proof -
    from that obtain k where k: "?P k" and least: "\<forall>j<k. \<not> ?P j"
      using exists_least_iff [of ?P] by blast
    from k obtain w where w: "fst (attempt_body cities world k) = Return w" by blast
    have "fst (attempt_body cities world j) = Continue" if "1 \<le> j \<and> j < k" for j
    proof (cases "fst (attempt_body cities world j)")
      case Continue
      then show ?thesis .
    next
      case (Return w')
      with that k least show ?thesis by auto
    next
      case (Throw e)
      with no_throw show ?thesis by simp
    qed
    then have "randomWeather_loop cities world 1 [] =
               (Inr \<lparr>statusCode = 200, body = WeatherBody w\<rparr>,
                [] @ concat (map (\<lambda>j. snd (attempt_body cities world j)) [1..<Suc k]))"
      using k w by (intro loop_success) auto
    then show ?thesis
      by (auto simp: randomWeather_def)
  qed
  have bwd: "\<exists>k. ?P k" if "?ok"
  proof -
    from that obtain w where
      "fst (randomWeather_loop cities world 1 []) = Inr \<lparr>statusCode = 200, body = WeatherBody w\<rparr>"
      by (auto simp: randomWeather_def)
    from loop_200_inversion [OF this] show ?thesis by blast
  qed
  have exhausted: "fst (randomWeather cities world)
              = Inr \<lparr>statusCode = 503,
                     body = ErrorBody
                       \<lparr>error = ''Service Unavailable'',
                        message = ''Unable to resolve a valid location after multiple attempts. The geocoding service may be temporarily unavailable or rate-limited. Please try again in a few moments.''\<rparr>\<rparr>"
    if "\<not> (\<exists>k. ?P k)"
  proof -
    have "fst (attempt_body cities world j) = Continue" if "1 \<le> j \<and> j \<le> maxAttempts" for j
    proof (cases "fst (attempt_body cities world j)")
      case Continue
      then show ?thesis .
    next
      case (Return w')
      with that \<open>\<not> (\<exists>k. ?P k)\<close> show ?thesis by auto
    next
      case (Throw e)
      with no_throw show ?thesis by simp
    qed
    then show ?thesis
      by (simp add: randomWeather_def loop_exhausted unavailable_message_def)
  qed
  show ?thesis
  proof (cases "\<exists>k. ?P k")
    case True
    with fwd bwd show ?thesis by blast
  next
    case False
    with exhausted bwd show ?thesis by blast
  qed
qed

theorem randomWeather_outcomes_witness:
  "[testville] \<noteq> [] \<and> length [testville] < 2 ^ 32
   \<and> (\<forall>a. 0 \<le> Math_random world_up a \<and> Math_random world_up a < 1
          \<and> round_double (Math_random world_up a) = Some (Math_random world_up a))
   \<and> (\<forall>a lat lon. open_meteo world_up a lat lon = Responds (Response 200 (Inr testville_forecast)))
   \<and> OpenMeteoResponse.hourly testville_forecast = Some testville_hourly
   \<and> Hourly.time testville_hourly \<noteq> None
   \<and> Hourly.temperature_2m testville_hourly \<noteq> None
   \<and> Hourly.wind_speed_10m testville_hourly \<noteq> None
   \<and> fst (randomWeather [testville] world_up)
       = Inr \<lparr>statusCode = 200, body = WeatherBody testville_response\<rparr>
   \<and> fst (randomWeather [testville] world_down)
       = Inr \<lparr>statusCode = 503,
              body = ErrorBody
                \<lparr>error = ''Service Unavailable'',
                 message = ''Unable to resolve a valid location after multiple attempts. The geocoding service may be temporarily unavailable or rate-limited. Please try again in a few moments.''\<rparr>\<rparr>"
proof -
  have cs: "[testville] \<noteq> []" "length [testville] < 2 ^ 32"
    by simp_all
  have up: "\<forall>a. 0 \<le> Math_random world_up a \<and> Math_random world_up a < 1
          \<and> round_double (Math_random world_up a) = Some (Math_random world_up a)"
    by (simp add: world_up_def round_double_zero)
  have down: "\<forall>a. 0 \<le> Math_random world_down a \<and> Math_random world_down a < 1
          \<and> round_double (Math_random world_down a) = Some (Math_random world_down a)"
    by (simp add: world_down_def round_double_zero)
  have answer: "\<forall>a lat lon. open_meteo world_up a lat lon
                  = Responds (Response 200 (Inr testville_forecast))"
    by (simp add: world_up_def weather_up_def)
  have arrays: "OpenMeteoResponse.hourly testville_forecast = Some testville_hourly"
    "Hourly.time testville_hourly \<noteq> None" "Hourly.temperature_2m testville_hourly \<noteq> None"
    "Hourly.wind_speed_10m testville_hourly \<noteq> None"
    by (simp_all add: testville_forecast_def testville_hourly_def)
  have up_hourly: "\<forall>a lat lon response d h.
           open_meteo world_up a lat lon = Responds response \<and> json response = Inr d
           \<and> OpenMeteoResponse.hourly d = Some h
           \<longrightarrow> Hourly.time h \<noteq> None \<and> Hourly.temperature_2m h \<noteq> None
               \<and> Hourly.wind_speed_10m h \<noteq> None"
    using answer arrays by auto
  have down_hourly: "\<forall>a lat lon response d h.
           open_meteo world_down a lat lon = Responds response \<and> json response = Inr d
           \<and> OpenMeteoResponse.hourly d = Some h
           \<longrightarrow> Hourly.time h \<noteq> None \<and> Hourly.temperature_2m h \<noteq> None
               \<and> Hourly.wind_speed_10m h \<noteq> None"
    by (simp add: world_down_def weather_down_def)
  have "randomWeather_loop [testville] world_up 1 [] =
          (Inr \<lparr>statusCode = 200, body = WeatherBody testville_response\<rparr>,
           [] @ snd (attempt_body [testville] world_up 1))"
    by (intro loop_step_Return) (simp_all add: maxAttempts_def world_up_attempt)
  then have run: "fst (randomWeather [testville] world_up)
          = Inr \<lparr>statusCode = 200, body = WeatherBody testville_response\<rparr>"
    by (simp add: randomWeather_def)
  have "\<exists>k w. 1 \<le> k \<and> k \<le> maxAttempts \<and> fst (attempt_body [testville] world_up k) = Return w"
    by (intro exI [of _ 1] exI [of _ testville_response])
       (simp add: world_up_attempt maxAttempts_def)
  with randomWeather_outcomes [OF cs up up_hourly]
  have "\<exists>w. fst (randomWeather [testville] world_up)
                       = Inr \<lparr>statusCode = 200, body = WeatherBody w\<rparr>"
    by blast
  have "\<not> (\<exists>k w. 1 \<le> k \<and> k \<le> maxAttempts \<and> fst (attempt_body [testville] world_down k) = Return w)"
    by (simp add: world_down_attempt)
  with randomWeather_outcomes [OF cs down down_hourly]
  have "fst (randomWeather [testville] world_down)
       = Inr \<lparr>statusCode = 503,
              body = ErrorBody
                \<lparr>error = ''Service Unavailable'',
                 message = ''Unable to resolve a valid location after multiple attempts. The geocoding service may be temporarily unavailable or rate-limited. Please try again in a few moments.''\<rparr>\<rparr>"
    by blast
  with run cs up answer arrays show ?thesis
    by simp
qed

text \<open>
  Both calls of the first attempt succeed, the weather data has its \<^verbatim>\<open>current\<close> and
  \<^verbatim>\<open>hourly\<close> sections, and the handler returns nothing: the \<^verbatim>\<open>hourly\<close> section
  is the empty object and building the hourly forecast throws.
\<close>

theorem first_success_throws_counterexample:
  "getRandomCity [testville] (Math_random world_hollow 1) = Some testville
   \<and> reverseGeocode (nominatim world_hollow 1) (City.latitude testville)
        (City.longitude testville) = Inr (Some testville_located)
   \<and> fetchWeather (open_meteo world_hollow 1) (City.latitude testville)
        (City.longitude testville) = Inr (Some hollow_forecast)
   \<and> OpenMeteoResponse.current hollow_forecast = Some testville_current
   \<and> OpenMeteoResponse.hourly hollow_forecast = Some hollow_hourly
   \<and> randomWeather [testville] world_hollow
       = (Inl TypeError, [Attempt 1, GeocodeRequest 10 20, WeatherRequest 10 20])"
proof -
  have "fst (attempt_body [testville] world_hollow 1) = Throw TypeError"
    by (simp add: world_hollow_attempt)
  moreover have "1 \<le> maxAttempts"
    by (simp add: maxAttempts_def)
  ultimately have "randomWeather_loop [testville] world_hollow 1 [] =
                     (Inl TypeError, [] @ snd (attempt_body [testville] world_hollow 1))"
    by (intro loop_step_Throw)
  then have "randomWeather [testville] world_hollow
       = (Inl TypeError, [Attempt 1, GeocodeRequest 10 20, WeatherRequest 10 20])"
    by (simp add: randomWeather_def world_hollow_attempt)
  then show ?thesis
    by (simp add: client_defs scenario_defs)
qed

text \<open>
  Claim C2, as the code has it. Let the attempts before \<open>k\<close> have ended at
  \<^verbatim>\<open>continue\<close> (the loop does not reach attempt \<open>k\<close> otherwise), let both calls of
  attempt \<open>k \<le> 10\<close> succeed (the geocoder returns a location, the weather service
  returns data with both sections), and let the \<^verbatim>\<open>hourly\<close> section hold its three
  arrays. Then the handler sends 200 with the response assembled from the city, the
  location and the data of attempt \<open>k\<close>: the city's coordinates, the location's name and
  country, the time zone, the current readings with their units, the first 24 hourly
  entries and the two attribution strings. Its events are those of the failed attempts
  followed by the three events of attempt \<open>k\<close>, the weather request being the last: no
  attempt, no call and no delay follows, and the delays are the \<open>k - 1\<close> ones of 1100 ms
  of the failed attempts.
\<close>

theorem first_success_returns:
  assumes "1 \<le> k" and "k \<le> maxAttempts"
    and "\<forall>a\<in>{1..<k}. fst (attempt_body cities world a) = Continue"
    and "getRandomCity cities (Math_random world k) = Some drawn"
    and "reverseGeocode (nominatim world k) (City.latitude drawn) (City.longitude drawn)
           = Inr (Some geoResult)"
    and "fetchWeather (open_meteo world k) (City.latitude drawn) (City.longitude drawn)
           = Inr (Some d)"
    and "OpenMeteoResponse.current d = Some cur"
    and "OpenMeteoResponse.hourly d = Some h"
    and "Hourly.time h = Some ts"
    and "Hourly.temperature_2m h = Some temps"
    and "Hourly.wind_speed_10m h = Some winds"
  shows "randomWeather cities world =
           (Inr \<lparr>statusCode = 200,
                 body = WeatherBody
                    \<lparr>chosenPlace =
                       \<lparr>ChosenPlace.displayName = GeoResult.displayName geoResult,
                        ChosenPlace.country = GeoResult.country geoResult,
                        ChosenPlace.latitude = City.latitude drawn,
                        ChosenPlace.longitude = City.longitude drawn,
                        ChosenPlace.timezone = OpenMeteoResponse.timezone d\<rparr>,
                     forecast =
                       \<lparr>Forecast.current =
                          \<lparr>ForecastCurrent.temperature = Current.temperature_2m cur,
                           ForecastCurrent.temperatureUnit =
                             [CHR 0xC2, CHR 0xAC, CHR 0xE2, CHR 0x88, CHR 0x9E, CHR ''C''],
                           ForecastCurrent.windSpeed = Current.wind_speed_10m cur,
                           ForecastCurrent.windSpeedUnit = ''km/h''\<rparr>,
                        Forecast.hourly =
                          map (\<lambda>(index, t).
                                 \<lparr>HourlyForecast.time = t,
                                  HourlyForecast.temperature = js_index temps (int index),
                                  HourlyForecast.windSpeed = js_index winds (int index)\<rparr>)
                              (enumerate 0 (take 24 ts))\<rparr>,
                     dataSources =
                       \<lparr>geocoding =
                          ''OpenStreetMap Nominatim (https://nominatim.openstreetmap.org)'',
                        weather = ''Open-Meteo (https://open-meteo.com)''\<rparr>\<rparr>\<rparr>,
            concat (map (\<lambda>a. snd (attempt_body cities world a)) [1..<k])
              @ [Attempt k,
                 GeocodeRequest (City.latitude drawn) (City.longitude drawn),
                 WeatherRequest (City.latitude drawn) (City.longitude drawn)])
       \<and> sleeps (snd (randomWeather cities world)) = replicate (k - 1) 1100"
proof -
  define entries where
    "entries = map (\<lambda>(index, t).
                      \<lparr>HourlyForecast.time = t,
                       HourlyForecast.temperature = js_index temps (int index),
                       HourlyForecast.windSpeed = js_index winds (int index)\<rparr>)
                   (enumerate 0 (take 24 ts))"
  have sections: "weather_sections (Some d) = Some (d, cur, h)"
    using assms(7,8) by (simp add: weather_sections_def)
  have hourly: "hourlyForecast h = Inr entries"
    unfolding entries_def using assms(9,10,11) by (rule hourlyForecast_complete)
  from assms(4) have body_k: "attempt_body cities world k =
      (Return (buildResponse drawn geoResult d cur entries),
       [Attempt k,
        GeocodeRequest (City.latitude drawn) (City.longitude drawn),
        WeatherRequest (City.latitude drawn) (City.longitude drawn)])"
    using assms(5,6) sections hourly by (cases rule: attempt_body_cases) simp_all
  have earlier: "\<forall>j. 1 \<le> j \<and> j < k \<longrightarrow> fst (attempt_body cities world j) = Continue"
    using assms(3) by simp
  have "randomWeather_loop cities world 1 [] =
          (Inr \<lparr>statusCode = 200,
                body = WeatherBody (buildResponse drawn geoResult d cur entries)\<rparr>,
           [] @ concat (map (\<lambda>j. snd (attempt_body cities world j)) [1..<Suc k]))"
    using assms(1,2) earlier body_k by (intro loop_success) simp_all
  then have run: "randomWeather cities world =
          (Inr \<lparr>statusCode = 200,
                body = WeatherBody (buildResponse drawn geoResult d cur entries)\<rparr>,
           concat (map (\<lambda>a. snd (attempt_body cities world a)) [1..<k])
             @ [Attempt k,
                GeocodeRequest (City.latitude drawn) (City.longitude drawn),
                WeatherRequest (City.latitude drawn) (City.longitude drawn)])"
    using assms(1) body_k by (simp add: randomWeather_def)
  have "sleeps (concat (map (\<lambda>j. snd (attempt_body cities world j)) [1..<k]))
          = replicate (k - 1) retryDelay"
    using earlier assms(2) by (intro sleeps_failed_attempts) simp_all
  then have delays: "sleeps (snd (randomWeather cities world)) = replicate (k - 1) 1100"
    using run by (simp add: sleeps_append retryDelay_def)
  have "buildResponse drawn geoResult d cur entries =
          \<lparr>chosenPlace =
                       \<lparr>ChosenPlace.displayName = GeoResult.displayName geoResult,
                        ChosenPlace.country = GeoResult.country geoResult,
                        ChosenPlace.latitude = City.latitude drawn,
                        ChosenPlace.longitude = City.longitude drawn,
                        ChosenPlace.timezone = OpenMeteoResponse.timezone d\<rparr>,
                     forecast =
                       \<lparr>Forecast.current =
                          \<lparr>ForecastCurrent.temperature = Current.temperature_2m cur,
                           ForecastCurrent.temperatureUnit =
                             [CHR 0xC2, CHR 0xAC, CHR 0xE2, CHR 0x88, CHR 0x9E, CHR ''C''],
                           ForecastCurrent.windSpeed = Current.wind_speed_10m cur,
                           ForecastCurrent.windSpeedUnit = ''km/h''\<rparr>,
                        Forecast.hourly =
                          map (\<lambda>(index, t).
                                 \<lparr>HourlyForecast.time = t,
                                  HourlyForecast.temperature = js_index temps (int index),
                                  HourlyForecast.windSpeed = js_index winds (int index)\<rparr>)
                              (enumerate 0 (take 24 ts))\<rparr>,
                     dataSources =
                       \<lparr>geocoding =
                          ''OpenStreetMap Nominatim (https://nominatim.openstreetmap.org)'',
                        weather = ''Open-Meteo (https://open-meteo.com)''\<rparr>\<rparr>"
    by (simp add: buildResponse_def entries_def temperatureUnit_literal_def
          geocoding_attribution_def weather_attribution_def)
  with run delays show ?thesis
    by simp
qed

theorem first_success_returns_witness:
  "randomWeather [testville] world_recovering =
     (Inr \<lparr>statusCode = 200, body = WeatherBody testville_response\<rparr>,
      [Attempt 1, GeocodeRequest 10 20, Sleep 1100,
       Attempt 2, GeocodeRequest 10 20, Sleep 1100,
       Attempt 3, GeocodeRequest 10 20, WeatherRequest 10 20])
   \<and> sleeps (snd (randomWeather [testville] world_recovering)) = [1100, 1100]
   \<and> Forecast.hourly (forecast testville_response)
       = [\<lparr>HourlyForecast.time = ''2024-01-15T14:00'',
           HourlyForecast.temperature = Some 15, HourlyForecast.windSpeed = Some 5\<rparr>,
          \<lparr>HourlyForecast.time = ''2024-01-15T15:00'',
           HourlyForecast.temperature = Some 16, HourlyForecast.windSpeed = Some 6\<rparr>]"
proof -
  have k: "(1::nat) \<le> 3" "3 \<le> maxAttempts"
    by (simp_all add: maxAttempts_def)
  have earlier: "\<forall>a\<in>{1..<3}. fst (attempt_body [testville] world_recovering a) = Continue"
    by (simp add: world_recovering_attempt)
  have drawn: "getRandomCity [testville] (Math_random world_recovering 3) = Some testville"
    by (simp add: client_defs scenario_defs)
  have geo: "reverseGeocode (nominatim world_recovering 3)
               (City.latitude testville) (City.longitude testville) = Inr (Some testville_located)"
    by (simp add: client_defs scenario_defs)
  have wx: "fetchWeather (open_meteo world_recovering 3)
               (City.latitude testville) (City.longitude testville) = Inr (Some testville_forecast)"
    by (simp add: client_defs scenario_defs)
  have sect: "OpenMeteoResponse.current testville_forecast = Some testville_current"
    "OpenMeteoResponse.hourly testville_forecast = Some testville_hourly"
    by (simp_all add: testville_forecast_def)
  have arrays: "Hourly.time testville_hourly = Some [''2024-01-15T14:00'', ''2024-01-15T15:00'']"
    "Hourly.temperature_2m testville_hourly = Some [15, 16]"
    "Hourly.wind_speed_10m testville_hourly = Some [5, 6]"
    by (simp_all add: testville_hourly_def)
  have upt: "[1..<3] = [1, 2::nat]"
    by (simp add: upt_rec)
  have before: "concat (map (\<lambda>a. snd (attempt_body [testville] world_recovering a)) [1..<3])
                  = [Attempt 1, GeocodeRequest 10 20, Sleep 1100,
                     Attempt 2, GeocodeRequest 10 20, Sleep 1100]"
    unfolding upt by (simp add: world_recovering_attempt maxAttempts_def retryDelay_def)
  have delays: "replicate (3 - 1) (1100::nat) = [1100, 1100]"
    by (simp add: numeral_2_eq_2)
  have response:
    "\<lparr>chosenPlace =
        \<lparr>ChosenPlace.displayName = GeoResult.displayName testville_located,
         ChosenPlace.country = GeoResult.country testville_located,
         ChosenPlace.latitude = City.latitude testville,
         ChosenPlace.longitude = City.longitude testville,
         ChosenPlace.timezone = OpenMeteoResponse.timezone testville_forecast\<rparr>,
      forecast =
        \<lparr>Forecast.current =
           \<lparr>ForecastCurrent.temperature = Current.temperature_2m testville_current,
            ForecastCurrent.temperatureUnit =
              [CHR 0xC2, CHR 0xAC, CHR 0xE2, CHR 0x88, CHR 0x9E, CHR ''C''],
            ForecastCurrent.windSpeed = Current.wind_speed_10m testville_current,
            ForecastCurrent.windSpeedUnit = ''km/h''\<rparr>,
         Forecast.hourly =
           map (\<lambda>(index, t).
                  \<lparr>HourlyForecast.time = t,
                   HourlyForecast.temperature = js_index [15, 16] (int index),
                   HourlyForecast.windSpeed = js_index [5, 6] (int index)\<rparr>)
               (enumerate 0 (take 24 [''2024-01-15T14:00'', ''2024-01-15T15:00'']))\<rparr>,
      dataSources =
        \<lparr>geocoding = ''OpenStreetMap Nominatim (https://nominatim.openstreetmap.org)'',
         weather = ''Open-Meteo (https://open-meteo.com)''\<rparr>\<rparr>
     = testville_response"
    by (simp add: scenario_defs js_index_def)
  have coords: "City.latitude testville = 10" "City.longitude testville = 20"
    by (simp_all add: testville_def)
  have entries: "Forecast.hourly (forecast testville_response)
       = [\<lparr>HourlyForecast.time = ''2024-01-15T14:00'',
           HourlyForecast.temperature = Some 15, HourlyForecast.windSpeed = Some 5\<rparr>,
          \<lparr>HourlyForecast.time = ''2024-01-15T15:00'',
           HourlyForecast.temperature = Some 16, HourlyForecast.windSpeed = Some 6\<rparr>]"
    by (simp add: testville_response_def testville_entries_def)
  from first_success_returns [OF k earlier drawn geo wx sect arrays]
  show ?thesis
    unfolding response before delays using coords entries by simp
qed

text \<open>
  Claim C3. When each of the 10 attempts ends at \<^verbatim>\<open>continue\<close> (the geocoder
  returned \<^verbatim>\<open>null\<close>, or the weather guard rejected what the weather call returned),
  the handler sends 503 with the fixed error body, and its events are those of the 10
  attempts in order. There are exactly 9 delays, each of 1100 ms: each of the attempts 1
  to 9 ends with one, and attempt 10 has none.
\<close>

theorem all_attempts_fail:
  assumes "\<forall>a\<in>{1..maxAttempts}. fst (attempt_body cities world a) = Continue"
  shows "fst (randomWeather cities world)
           = Inr \<lparr>statusCode = 503,
                  body = ErrorBody \<lparr>error = ''Service Unavailable'',
                                    message = unavailable_message\<rparr>\<rparr>
       \<and> snd (randomWeather cities world)
           = concat (map (\<lambda>a. snd (attempt_body cities world a)) [1..<11])
       \<and> sleeps (snd (randomWeather cities world)) = replicate 9 1100
       \<and> (\<forall>a\<in>{1..9}. \<exists>calls. snd (attempt_body cities world a) = calls @ [Sleep 1100]
                               \<and> sleeps calls = [])
       \<and> sleeps (snd (attempt_body cities world 10)) = []"
proof -
  have all: "\<forall>j. 1 \<le> j \<and> j \<le> maxAttempts \<longrightarrow> fst (attempt_body cities world j) = Continue"
    using assms by simp
  have run: "randomWeather cities world =
          (Inr \<lparr>statusCode = 503,
                body = ErrorBody \<lparr>error = ''Service Unavailable'',
                                  message = unavailable_message\<rparr>\<rparr>,
           concat (map (\<lambda>j. snd (attempt_body cities world j)) [1..<Suc maxAttempts]))"
    using loop_exhausted [OF all, of "[]"] by (simp add: randomWeather_def)
  have split: "[1..<Suc maxAttempts] = [1..<maxAttempts] @ [maxAttempts]"
    by (rule upt_Suc_append) (simp add: maxAttempts_def)
  have "sleeps (concat (map (\<lambda>j. snd (attempt_body cities world j)) [1..<maxAttempts]))
          = replicate (maxAttempts - 1) retryDelay"
    using all by (intro sleeps_failed_attempts) simp_all
  moreover have last: "sleeps (snd (attempt_body cities world maxAttempts)) = []"
    using all by (simp add: attempt_body_Continue_sleeps maxAttempts_def)
  ultimately have count: "sleeps (snd (randomWeather cities world)) = replicate 9 1100"
    unfolding run split by (simp add: sleeps_append maxAttempts_def retryDelay_def)
  have each: "\<exists>calls. snd (attempt_body cities world a) = calls @ [Sleep 1100] \<and> sleeps calls = []"
    if "a \<in> {1..9}" for a
  proof -
    from that all have "fst (attempt_body cities world a) = Continue"
      by (simp add: maxAttempts_def)
    from attempt_body_Continue_events [OF this] that show ?thesis
      by (simp add: maxAttempts_def retryDelay_def)
  qed
  from run count each last show ?thesis
    by (simp add: maxAttempts_def)
qed

theorem all_attempts_fail_witness:
  "fst (randomWeather [testville] world_down)
     = Inr \<lparr>statusCode = 503,
            body = ErrorBody \<lparr>error = ''Service Unavailable'',
                              message = unavailable_message\<rparr>\<rparr>
   \<and> sleeps (snd (randomWeather [testville] world_down))
       = [1100, 1100, 1100, 1100, 1100, 1100, 1100, 1100, 1100]
   \<and> snd (attempt_body [testville] world_down 9)
       = [Attempt 9, GeocodeRequest 10 20, Sleep 1100]
   \<and> snd (attempt_body [testville] world_down 10) = [Attempt 10, GeocodeRequest 10 20]"
proof -
  have "\<forall>a\<in>{1..maxAttempts}. fst (attempt_body [testville] world_down a) = Continue"
    by (simp add: world_down_attempt)
  from all_attempts_fail [OF this]
  have "fst (randomWeather [testville] world_down)
     = Inr \<lparr>statusCode = 503,
            body = ErrorBody \<lparr>error = ''Service Unavailable'',
                              message = unavailable_message\<rparr>\<rparr>
     \<and> sleeps (snd (randomWeather [testville] world_down)) = replicate 9 1100"
    by blast
  moreover have "replicate 9 (1100::nat) = [1100, 1100, 1100, 1100, 1100, 1100, 1100, 1100, 1100]"
    by (simp add: numeral_nat)
  moreover have "snd (attempt_body [testville] world_down 9)
                   = [Attempt 9, GeocodeRequest 10 20, Sleep 1100]"
    by (simp add: world_down_attempt maxAttempts_def retryDelay_def)
  moreover have "snd (attempt_body [testville] world_down 10) = [Attempt 10, GeocodeRequest 10 20]"
    by (simp add: world_down_attempt maxAttempts_def)
  ultimately show ?thesis
    by simp
qed

text \<open>
  Claim C5. In a 200 response, \<^verbatim>\<open>chosenPlace.latitude\<close> and
  \<^verbatim>\<open>chosenPlace.longitude\<close> are the coordinates of the city that
  \<^verbatim>\<open>getRandomCity\<close> returned in the attempt that reached the \<^verbatim>\<open>return\<close>
  (the first attempt that did not end at \<^verbatim>\<open>continue\<close>), whatever the geocoder
  answered.
\<close>

theorem chosenPlace_coordinates:
  assumes "fst (randomWeather cities world)
             = Inr \<lparr>statusCode = 200, body = WeatherBody w\<rparr>"
  shows "\<exists>k drawn. 1 \<le> k \<and> k \<le> maxAttempts
           \<and> (\<forall>a. 1 \<le> a \<and> a < k \<longrightarrow> fst (attempt_body cities world a) = Continue)
           \<and> fst (attempt_body cities world k) = Return w
           \<and> getRandomCity cities (Math_random world k) = Some drawn
           \<and> ChosenPlace.latitude (chosenPlace w) = City.latitude drawn
           \<and> ChosenPlace.longitude (chosenPlace w) = City.longitude drawn"
proof -
  from assms have "fst (randomWeather_loop cities world 1 [])
                     = Inr \<lparr>statusCode = 200, body = WeatherBody w\<rparr>"
    by (simp add: randomWeather_def)
  from loop_200_inversion [OF this] obtain k where
    k: "1 \<le> k" "k \<le> maxAttempts"
       "\<forall>a. 1 \<le> a \<and> a < k \<longrightarrow> fst (attempt_body cities world a) = Continue"
       "fst (attempt_body cities world k) = Return w"
    by blast
  from attempt_body_Return_D [OF k(4)] obtain drawn geoResult d cur entries where
    "getRandomCity cities (Math_random world k) = Some drawn"
    "w = buildResponse drawn geoResult d cur entries"
    by blast
  moreover from this have "ChosenPlace.latitude (chosenPlace w) = City.latitude drawn"
    "ChosenPlace.longitude (chosenPlace w) = City.longitude drawn"
    by (simp_all add: buildResponse_def)
  ultimately show ?thesis
    using k by blast
qed

theorem chosenPlace_coordinates_witness:
  "fst (randomWeather [testville] world_recovering)
     = Inr \<lparr>statusCode = 200, body = WeatherBody testville_response\<rparr>
   \<and> ChosenPlace.latitude (chosenPlace testville_response) = City.latitude testville
   \<and> ChosenPlace.longitude (chosenPlace testville_response) = City.longitude testville
   \<and> City.latitude testville = 10 \<and> City.longitude testville = 20"
proof -
  have "fst (attempt_body [testville] world_recovering 3) = Return testville_response"
    "\<forall>j. 1 \<le> j \<and> j < 3 \<longrightarrow> fst (attempt_body [testville] world_recovering j) = Continue"
    by (simp_all add: world_recovering_attempt)
  then have "randomWeather_loop [testville] world_recovering 1 [] =
         (Inr \<lparr>statusCode = 200, body = WeatherBody testville_response\<rparr>,
          [] @ concat (map (\<lambda>j. snd (attempt_body [testville] world_recovering j)) [1..<Suc 3]))"
    by (intro loop_success) (simp_all add: maxAttempts_def)
  then have run: "fst (randomWeather [testville] world_recovering)
     = Inr \<lparr>statusCode = 200, body = WeatherBody testville_response\<rparr>"
    by (simp add: randomWeather_def)
  from chosenPlace_coordinates [OF run] obtain k drawn where
    "getRandomCity [testville] (Math_random world_recovering k) = Some drawn"
    "ChosenPlace.latitude (chosenPlace testville_response) = City.latitude drawn"
    "ChosenPlace.longitude (chosenPlace testville_response) = City.longitude drawn"
    by blast
  moreover from this(1) have "drawn = testville"
    by (simp add: client_defs world_recovering_def)
  ultimately show ?thesis
    using run by (simp add: testville_def)
qed

text \<open>
  Claim C9, evaluated. In the 200 response for Testville, \<^verbatim>\<open>windSpeedUnit\<close> and the
  two attribution strings are the fixed ones, but \<^verbatim>\<open>temperatureUnit\<close> is the six
  bytes \<^verbatim>\<open>C2 AC E2 88 9E 43\<close> of the source literal, which is not the degree sign
  followed by \<^verbatim>\<open>C\<close>.
\<close>

theorem temperatureUnit_is_not_degree_celsius:
  "fst (randomWeather [testville] world_up)
     = Inr \<lparr>statusCode = 200, body = WeatherBody testville_response\<rparr>
   \<and> ForecastCurrent.temperatureUnit (Forecast.current (forecast testville_response))
       = [CHR 0xC2, CHR 0xAC, CHR 0xE2, CHR 0x88, CHR 0x9E, CHR ''C'']
   \<and> ForecastCurrent.temperatureUnit (Forecast.current (forecast testville_response))
       \<noteq> degree_celsius
   \<and> ForecastCurrent.windSpeedUnit (Forecast.current (forecast testville_response)) = ''km/h''
   \<and> dataSources testville_response
       = \<lparr>geocoding = ''OpenStreetMap Nominatim (https://nominatim.openstreetmap.org)'',
          weather = ''Open-Meteo (https://open-meteo.com)''\<rparr>"
proof -
  have "randomWeather_loop [testville] world_up 1 [] =
          (Inr \<lparr>statusCode = 200, body = WeatherBody testville_response\<rparr>,
           [] @ snd (attempt_body [testville] world_up 1))"
    by (intro loop_step_Return) (simp_all add: maxAttempts_def world_up_attempt)
  then have "fst (randomWeather [testville] world_up)
          = Inr \<lparr>statusCode = 200, body = WeatherBody testville_response\<rparr>"
    by (simp add: randomWeather_def)
  then show ?thesis
    by (simp add: testville_response_def degree_celsius_def)
qed

end
